theory Spec2Isabelle
  imports Main
begin

section \<open>Values that flow through the request lifecycle\<close>

text \<open>
  The model follows \<^verbatim>\<open>src/server.js\<close>: the request callback of \<^verbatim>\<open>serve\<close>
  (the pipeline that settles one promise per request) and \<^verbatim>\<open>_send\<close> (the
  response sender). JavaScript values are a datatype with one constructor for every
  class the code tells apart with \<^verbatim>\<open>instanceof\<close> and \<^verbatim>\<open>typeof\<close>.
\<close>

type_synonym chunk = string

text \<open>
  A transform stream contributed by a postprocessor: a label and what it does to the
  chunks that are piped through it.
\<close>

datatype tstream = TStream string "chunk list \<Rightarrow> chunk list"

fun tfun :: "tstream \<Rightarrow> chunk list \<Rightarrow> chunk list" where
  "tfun (TStream _ f) = f"

text \<open>
  A \<^verbatim>\<open>ReadableStream\<close>: a source with its \<^verbatim>\<open>locked\<close> flag and the chunks
  it will yield, or the readable side of a transform a stream was piped through
  (\<^verbatim>\<open>stream.pipeThrough(pipe, { signal })\<close>, the signal being \<^verbatim>\<open>context.signal\<close>).
\<close>

datatype rstream = BodyStream bool "chunk list" | PipedThrough rstream tstream

fun locked :: "rstream \<Rightarrow> bool" where
  "locked (BodyStream l _) = l"
| "locked (PipedThrough _ _) = False"

fun chunks :: "rstream \<Rightarrow> chunk list" where
  "chunks (BodyStream _ cs) = cs"
| "chunks (PipedThrough s t) = tfun t (chunks s)"

text \<open>
  A \<^verbatim>\<open>Response\<close>. Header names are stored lower-cased, as \<^verbatim>\<open>Headers\<close> stores
  them; \<^verbatim>\<open>body\<close> is \<^verbatim>\<open>None\<close> for a null body.
\<close>

record response =
  status :: nat
  statusText :: string
  headers :: "(string \<times> string) list"
  body :: "rstream option"

text \<open>
  A plain object as \<^verbatim>\<open>_send\<close> destructures it:
  \<^verbatim>\<open>const { headers: respHeaders = {}, body = null, status = 200, statusText } = resp\<close>.
  A field is \<^verbatim>\<open>None\<close> when the object does not have it.
\<close>

record plainobj =
  o_headers :: "(string \<times> string) list option"
  o_body :: "string option"
  o_status :: "nat option"
  o_statusText :: "string option"

datatype val =
    Undefined
  | Null
  | Str string
  | ErrorV error
  | URLV string
  | ResponseV response
  | ObjectV plainobj
and error =
    Error string
  | TypeError string
  | RangeError string
  | AggregateError "val list"
  | DOMException string string
  | HTTPError string nat "val option"

text \<open>
  \<^verbatim>\<open>HTTPError.js\<close> is not among the sources. The code constructs an
  \<^verbatim>\<open>HTTPError\<close> from a message and the options \<^verbatim>\<open>status\<close> and \<^verbatim>\<open>cause\<close>,
  which are the three arguments of the constructor above. A \<^verbatim>\<open>DOMException\<close> has a
  name and a message.
\<close>

fun error_message :: "error \<Rightarrow> string" where
  "error_message (Error m) = m"
| "error_message (TypeError m) = m"
| "error_message (RangeError m) = m"
| "error_message (AggregateError _) = []"
| "error_message (DOMException _ m) = m"
| "error_message (HTTPError m _ _) = m"

section \<open>Per-request state\<close>

record abort_signal =
  aborted :: bool
  reason :: val

definition pending_signal :: abort_signal where
  "pending_signal = \<lparr>aborted = False, reason = Undefined\<rparr>"

definition aborted_signal :: "val \<Rightarrow> abort_signal" where
  "aborted_signal r = \<lparr>aborted = True, reason = r\<rparr>"

datatype outcome = Fulfilled val | Rejected val

text \<open>What \<^verbatim>\<open>respMessage\<close> (the \<^verbatim>\<open>ServerResponse\<close>) was asked to do.\<close>

datatype header_op = SetHeader string string | AppendHeader string string

datatype written = Data chunk | JSON_stringify error

record transport =
  headersSent :: bool
  writable :: bool
  heads :: "(nat \<times> string option) list"
  header_ops :: "header_op list"
  writes :: "written list"
  ended :: bool

datatype event =
    ExistsSync string
  | Import string
  | HandlerCalled
  | PostprocessorCalled nat
  | Logged val

text \<open>
  The state one request callback works on: the \<^verbatim>\<open>settled\<close> flag and the promise of
  \<^verbatim>\<open>Promise.withResolvers()\<close>, the signal passed to \<^verbatim>\<open>serve\<close> (if any), the
  signal of the request's own \<^verbatim>\<open>AbortController\<close> (which is \<^verbatim>\<open>context.signal\<close>),
  the signal of \<^verbatim>\<open>AbortSignal.any([passedSignal, controller.signal])\<close>, the server
  response, and a trace of the calls made to collaborators.
\<close>

record world =
  settled :: bool
  promise :: "outcome option"
  passedSignal :: "abort_signal option"
  ctrl :: abort_signal
  anySignal :: abort_signal
  respMessage :: transport
  trace :: "event list"

text \<open>
  \<^verbatim>\<open>const signal = passedSignal instanceof AbortSignal
    ? AbortSignal.any([passedSignal, controller.signal]) : controller.signal\<close>
\<close>

definition request_signal :: "world \<Rightarrow> abort_signal" where
  "request_signal w = (case passedSignal w of None \<Rightarrow> ctrl w | Some _ \<Rightarrow> anySignal w)"

definition fresh_transport :: transport where
  "fresh_transport = \<lparr>headersSent = False, writable = True, heads = [], header_ops = [],
     writes = [], ended = False\<rparr>"

text \<open>The state at line 204, before anything ran: nothing settled, the controller new.\<close>

definition new_world :: "abort_signal option \<Rightarrow> transport \<Rightarrow> world" where
  "new_world passed t = \<lparr>settled = False, promise = None, passedSignal = passed,
     ctrl = pending_signal,
     anySignal = (case passed of None \<Rightarrow> pending_signal | Some p \<Rightarrow> p),
     respMessage = t, trace = []\<rparr>"

subsection \<open>Settlement callbacks (lines 203--227)\<close>

text \<open>
  \<^verbatim>\<open>resolveRequest\<close> and \<^verbatim>\<open>rejectRequest\<close> are the resolvers of the promise; a
  promise that is no longer pending ignores them. Values handed to \<^verbatim>\<open>resolve\<close> are
  taken not to be thenables.
\<close>

definition resolveRequest :: "val \<Rightarrow> world \<Rightarrow> world" where
  "resolveRequest result w =
     (if promise w = None then w\<lparr>promise := Some (Fulfilled result)\<rparr> else w)"

definition rejectRequest :: "val \<Rightarrow> world \<Rightarrow> world" where
  "rejectRequest r w =
     (if promise w = None then w\<lparr>promise := Some (Rejected r)\<rparr> else w)"

definition resolve :: "val \<Rightarrow> world \<Rightarrow> world" where
  "resolve result w =
     (if \<not> settled w then (resolveRequest result w)\<lparr>settled := True\<rparr> else w)"

definition reject :: "val \<Rightarrow> world \<Rightarrow> world" where
  "reject r w =
     (if \<not> settled w then (rejectRequest r w)\<lparr>settled := True\<rparr> else w)"

datatype settle = Resolve val | Reject val

fun callback :: "settle \<Rightarrow> world \<Rightarrow> world" where
  "callback (Resolve v) w = resolve v w"
| "callback (Reject r) w = reject r w"

fun outcome_of :: "settle \<Rightarrow> outcome" where
  "outcome_of (Resolve v) = Fulfilled v"
| "outcome_of (Reject r) = Rejected r"

text \<open>A sequence of calls to the two callbacks of one context, in the order made.\<close>

definition callbacks :: "settle list \<Rightarrow> world \<Rightarrow> world" where
  "callbacks cs w = foldl (\<lambda>w' c. callback c w') w cs"

subsection \<open>Abort sources\<close>

text \<open>
  The reason an abort records: the one given, or an \<^verbatim>\<open>AbortError\<close> when none
  (\<^verbatim>\<open>undefined\<close>) is given.
\<close>

fun abort_reason :: "val \<Rightarrow> val" where
  "abort_reason Undefined = ErrorV (DOMException ''AbortError'' ''This operation was aborted'')"
| "abort_reason r = r"

text \<open>
  \<^verbatim>\<open>controller.abort(reason)\<close> and an abort of the passed signal. An aborted signal
  keeps its reason; the composite signal takes the reason of the source that fired
  first.
\<close>

definition controller_abort :: "val \<Rightarrow> world \<Rightarrow> world" where
  "controller_abort r w =
     (if aborted (ctrl w) then w
      else w\<lparr>ctrl := aborted_signal (abort_reason r),
             anySignal := (if aborted (anySignal w) then anySignal w
                           else aborted_signal (abort_reason r))\<rparr>)"

definition passed_abort :: "val \<Rightarrow> world \<Rightarrow> world" where
  "passed_abort r w =
     (case passedSignal w of
        None \<Rightarrow> w
      | Some p \<Rightarrow>
          if aborted p then w
          else w\<lparr>passedSignal := Some (aborted_signal (abort_reason r)),
                 anySignal := (if aborted (anySignal w) then anySignal w
                               else aborted_signal (abort_reason r))\<rparr>)"

text \<open>
  What a preprocessor, a handler or a postprocessor can do to the request while it
  runs: call a settlement callback of the context or abort its controller. An abort of
  the passed signal is an event of the environment that may fall into the same wait.
\<close>

datatype action = Settle settle | CtrlAbort val | PassedAbort val

fun perform :: "action \<Rightarrow> world \<Rightarrow> world" where
  "perform (Settle c) w = callback c w"
| "perform (CtrlAbort r) w = controller_abort r w"
| "perform (PassedAbort r) w = passed_abort r w"

definition perform_all :: "action list \<Rightarrow> world \<Rightarrow> world" where
  "perform_all as w = foldl (\<lambda>w' a. perform a w') w as"

section \<open>Collaborators that are not in the sources\<close>

record request =
  url :: string

datatype completion = Returns val | Rejects val | Throws val

text \<open>
  A preprocessor or a route handler, by what it does on a request: the actions it
  performs on the context while it runs, and how it completes (\<^verbatim>\<open>Returns\<close>: it
  returns a value or a promise that fulfils with one; \<^verbatim>\<open>Rejects\<close>: it returns a
  promise that rejects; \<^verbatim>\<open>Throws\<close>: it throws before returning).
\<close>

type_synonym jsfun = "request \<Rightarrow> action list \<times> completion"

text \<open>
  What a postprocessor's promise settles with. \<^verbatim>\<open>ObjectPair r w t\<close> is any other
  non-null object, \<^verbatim>\<open>r\<close> telling whether its \<^verbatim>\<open>readable\<close> is a
  \<^verbatim>\<open>ReadableStream\<close> and \<^verbatim>\<open>w\<close> whether its \<^verbatim>\<open>writable\<close> is a
  \<^verbatim>\<open>WritableStream\<close>; \<^verbatim>\<open>Primitive\<close> is \<^verbatim>\<open>undefined\<close> or any other value whose
  \<^verbatim>\<open>typeof\<close> is not \<^verbatim>\<open>'object'\<close>.
\<close>

datatype ppvalue =
    TransformStreamV tstream
  | CompressionStreamV tstream
  | ObjectPair bool bool tstream
  | NullValue
  | Primitive

datatype ppresult = Fulfils ppvalue | Fails val

type_synonym postprocessor = "response \<Rightarrow> action list \<times> ppresult"

datatype urlpattern = URLPattern nat string string

datatype target = FunctionT string jsfun | SpecifierT string

datatype export = DefaultFunction jsfun | DefaultOther

datatype imported = ModuleNS export | ImportRejects val

record fileurl =
  href :: string
  pathname :: string

text \<open>
  The platform and the helpers of \<^verbatim>\<open>utils.js\<close> and \<^verbatim>\<open>HTTPError.js\<close>, none of
  which is among the sources, are parameters of the model: the test of a
  \<^verbatim>\<open>URLPattern\<close>, \<^verbatim>\<open>resolveModulePath\<close>, the dynamic \<^verbatim>\<open>import\<close>,
  \<^verbatim>\<open>getFileURL\<close>, \<^verbatim>\<open>existsSync\<close>, \<^verbatim>\<open>resolveStaticPath\<close>,
  \<^verbatim>\<open>respondWithFile\<close>, the \<^verbatim>\<open>response\<close> getter of an \<^verbatim>\<open>HTTPError\<close>, the status
  an \<^verbatim>\<open>HTTPError\<close> gets when none is given, the header list a new
  \<^verbatim>\<open>Response\<close> builds from its body and its \<^verbatim>\<open>init.headers\<close> (or the
  \<^verbatim>\<open>TypeError\<close> for a name or value that is not valid), and what
  \<^verbatim>\<open>reader.releaseLock()\<close> does while a read is pending.
\<close>

text \<open>
  \<^verbatim>\<open>ReleaseRejects e\<close> is the Streams standard: the lock is released, and the pending
  read and \<^verbatim>\<open>reader.closed\<close> reject with the \<^verbatim>\<open>TypeError\<close> \<^verbatim>\<open>e\<close>.
  \<^verbatim>\<open>ReleaseThrows e\<close> is the standard before 2022: \<^verbatim>\<open>releaseLock\<close> throws
  \<^verbatim>\<open>e\<close> and releases nothing.
\<close>

datatype release_semantics = ReleaseRejects val | ReleaseThrows val

record env =
  URLPattern_test :: "urlpattern \<Rightarrow> string \<Rightarrow> bool"
  resolveModulePath :: "target \<Rightarrow> target"
  import_module :: "string \<Rightarrow> imported"
  getFileURL :: "string \<Rightarrow> string \<Rightarrow> fileurl"
  existsSync :: "fileurl \<Rightarrow> bool"
  resolveStaticPath :: "string \<Rightarrow> string option"
  respondWithFile :: "string \<Rightarrow> response"
  HTTPError_response :: "error \<Rightarrow> response"
  HTTPError_default_status :: nat
  Response_headers ::
    "string option \<Rightarrow> (string \<times> string) list \<Rightarrow> val + (string \<times> string) list"
  releaseLock_pending :: release_semantics

section \<open>The response sender\<close>

subsection \<open>The server response\<close>

definition setHeader :: "string \<Rightarrow> string \<Rightarrow> transport \<Rightarrow> transport" where
  "setHeader k v t = t\<lparr>header_ops := header_ops t @ [SetHeader k v]\<rparr>"

definition appendHeader :: "string \<Rightarrow> string \<Rightarrow> transport \<Rightarrow> transport" where
  "appendHeader k v t = t\<lparr>header_ops := header_ops t @ [AppendHeader k v]\<rparr>"

definition writeHead :: "nat \<Rightarrow> string option \<Rightarrow> transport \<Rightarrow> transport" where
  "writeHead st txt t = t\<lparr>headersSent := True, heads := heads t @ [(st, txt)]\<rparr>"

definition writeChunk :: "written \<Rightarrow> transport \<Rightarrow> transport" where
  "writeChunk x t = t\<lparr>writes := writes t @ [x]\<rparr>"

definition endMessage :: "transport \<Rightarrow> transport" where
  "endMessage t = t\<lparr>writable := False, ended := True\<rparr>"

definition on_transport :: "(transport \<Rightarrow> transport) \<Rightarrow> world \<Rightarrow> world" where
  "on_transport f w = w\<lparr>respMessage := f (respMessage w)\<rparr>"

definition record_event :: "event \<Rightarrow> world \<Rightarrow> world" where
  "record_event e w = w\<lparr>trace := trace w @ [e]\<rparr>"

subsection \<open>Lines 10--15\<close>

definition isImmutableResponse :: "response \<Rightarrow> bool" where
  "isImmutableResponse resp \<longleftrightarrow>
     299 < status resp \<and> status resp < 309 \<and> ''location'' \<in> set (map fst (headers resp))"

text \<open>
  \<^verbatim>\<open>typeof null\<close> is \<^verbatim>\<open>'object'\<close>, so for \<^verbatim>\<open>null\<close> the third disjunct reads
  \<^verbatim>\<open>null.readable\<close>, which throws a \<^verbatim>\<open>TypeError\<close> (\<^verbatim>\<open>Inl\<close>).
\<close>

fun isTransformStream :: "ppvalue \<Rightarrow> val + bool" where
  "isTransformStream (TransformStreamV _) = Inr True"
| "isTransformStream (CompressionStreamV _) = Inr True"
| "isTransformStream (ObjectPair r w _) = Inr (r \<and> w)"
| "isTransformStream NullValue =
     Inl (ErrorV (TypeError ''Cannot read properties of null (reading readable)''))"
| "isTransformStream Primitive = Inr False"

subsection \<open>The abort reply (lines 56--67 and 94--104)\<close>

text \<open>
  \<^verbatim>\<open>reason instanceof Error ? reason : new Error(reason)\<close>
\<close>

fun cause_of :: "val \<Rightarrow> error" where
  "cause_of (ErrorV e) = e"
| "cause_of (Str s) = Error s"
| "cause_of Undefined = Error []"
| "cause_of Null = Error ''null''"
| "cause_of (URLV u) = Error u"
| "cause_of (ResponseV _) = Error ''[object Response]''"
| "cause_of (ObjectV _) = Error ''[object Object]''"

definition abort_body :: "val \<Rightarrow> written" where
  "abort_body r =
     JSON_stringify (HTTPError (error_message (cause_of r)) 408 (Some (ErrorV (cause_of r))))"

definition abort_reply :: "world \<Rightarrow> world" where
  "abort_reply w =
     (let t0 = respMessage w;
          t1 = (if \<not> headersSent t0
                then writeHead 408 None (setHeader ''Content-Type'' ''application/json'' t0)
                else t0);
          t2 = (if writable t1 then writeChunk (abort_body (reason (ctrl w))) t1 else t1)
      in w\<lparr>respMessage := endMessage t2\<rparr>)"

subsection \<open>The body that is sent (lines 72--80)\<close>

text \<open>
  Every postprocessor is called, in order, inside \<^verbatim>\<open>Promise.try\<close>, so a throw and a
  rejection are the same \<^verbatim>\<open>Fails\<close>; \<^verbatim>\<open>Promise.allSettled\<close> waits for all of them.
\<close>

fun run_postprocessors ::
  "postprocessor list \<Rightarrow> nat \<Rightarrow> response \<Rightarrow> world \<Rightarrow> ppresult list \<times> world" where
  "run_postprocessors [] i resp w = ([], w)"
| "run_postprocessors (pp # pps) i resp w =
     (case pp resp of
        (effs, res) \<Rightarrow>
          (case run_postprocessors pps (Suc i) resp
                  (perform_all effs (record_event (PostprocessorCalled i) w)) of
             (rs, w') \<Rightarrow> (res # rs, w')))"

text \<open>\<^verbatim>\<open>result.value\<close>: \<^verbatim>\<open>undefined\<close> for a rejected result.\<close>

fun result_value :: "ppresult \<Rightarrow> ppvalue" where
  "result_value (Fulfils v) = v"
| "result_value (Fails _) = Primitive"

fun pipe_of :: "ppvalue \<Rightarrow> tstream list" where
  "pipe_of (TransformStreamV t) = [t]"
| "pipe_of (CompressionStreamV t) = [t]"
| "pipe_of (ObjectPair _ _ t) = [t]"
| "pipe_of NullValue = []"
| "pipe_of Primitive = []"

text \<open>
  \<^verbatim>\<open>results.filter(result => _isTransformStream(result.value)).map(result => result.value)\<close>;
  the filter stops at the first result on which the predicate throws.
\<close>

fun keep_transforms :: "ppresult list \<Rightarrow> val + tstream list" where
  "keep_transforms [] = Inr []"
| "keep_transforms (r # rs) =
     (case isTransformStream (result_value r) of
        Inl e \<Rightarrow> Inl e
      | Inr b \<Rightarrow>
          (case keep_transforms rs of
             Inl e \<Rightarrow> Inl e
           | Inr ts \<Rightarrow> Inr (if b then pipe_of (result_value r) @ ts else ts)))"

text \<open>
  \<^verbatim>\<open>stream.pipeThrough(pipe, { signal })\<close>: a \<^verbatim>\<open>TypeError\<close> when \<^verbatim>\<open>stream\<close> is
  \<^verbatim>\<open>null\<close> (a response without a body) or locked.
\<close>

fun pipeThrough :: "rstream option \<Rightarrow> tstream \<Rightarrow> val + rstream option" where
  "pipeThrough None t =
     Inl (ErrorV (TypeError ''Cannot read properties of null (reading pipeThrough)''))"
| "pipeThrough (Some s) t =
     (if locked s then Inl (ErrorV (TypeError ''ReadableStream is locked''))
      else Inr (Some (PipedThrough s t)))"

text \<open>\<^verbatim>\<open>.reduce((stream, pipe) => stream.pipeThrough(pipe, { signal }), resp.body)\<close>\<close>

fun reduce_pipes :: "tstream list \<Rightarrow> rstream option \<Rightarrow> val + rstream option" where
  "reduce_pipes [] s = Inr s"
| "reduce_pipes (t # ts) s =
     (case pipeThrough s t of Inl e \<Rightarrow> Inl e | Inr s' \<Rightarrow> reduce_pipes ts s')"

definition select_body ::
  "postprocessor list \<Rightarrow> response \<Rightarrow> world \<Rightarrow> (val + rstream option) \<times> world" where
  "select_body pps resp w =
     (if isImmutableResponse resp then (Inr (body resp), w)
      else
        (case run_postprocessors pps 0 resp w of
           (results, w') \<Rightarrow>
             (case keep_transforms results of
                Inl e \<Rightarrow> (Inl e, w')
              | Inr pipes \<Rightarrow> (reduce_pipes pipes (body resp), w'))))"

subsection \<open>Headers and body of a response (lines 82--144)\<close>

definition getSetCookie :: "(string \<times> string) list \<Rightarrow> string list" where
  "getSetCookie hs = map snd (filter (\<lambda>h. fst h = ''set-cookie'') hs)"

definition write_headers :: "response \<Rightarrow> transport \<Rightarrow> transport" where
  "write_headers resp t =
     (let t1 = foldl (\<lambda>t' h. if fst h \<noteq> ''set-cookie'' then setHeader (fst h) (snd h) t' else t')
                 t (headers resp);
          t2 = foldl (\<lambda>t' cookie. appendHeader ''Set-Cookie'' cookie t') t1
                 (getSetCookie (headers resp))
      in writeHead (if status resp = 0 then 500 else status resp) (Some (statusText resp)) t2)"

text \<open>
  The read loop (lines 123--134), over the chunks the reader will yield:
  \<^verbatim>\<open>while (! signal.aborted)\<close>, write the chunk read, and on \<^verbatim>\<open>done\<close> end the
  response. These are the runs in which no read fails and no abort arrives while a
  read is awaited; the runs with such events are those of \<^verbatim>\<open>read_events\<close> below.
\<close>

fun read_loop :: "chunk list \<Rightarrow> world \<Rightarrow> world" where
  "read_loop [] w =
     (if aborted (ctrl w) then w else on_transport endMessage w)"
| "read_loop (c # cs) w =
     (if aborted (ctrl w) then w else read_loop cs (on_transport (writeChunk (Data c)) w))"

definition send_response ::
  "postprocessor list \<Rightarrow> response \<Rightarrow> world \<Rightarrow> val option \<times> world" where
  "send_response pps resp w =
     (case select_body pps resp w of
        (Inl e, w1) \<Rightarrow> (Some e, w1)
      | (Inr b, w1) \<Rightarrow>
          (let w2 = (if \<not> headersSent (respMessage w1)
                     then on_transport (write_headers resp) w1 else w1)
           in if aborted (ctrl w2) then (None, abort_reply w2)
              else
                (case b of
                   Some stream \<Rightarrow>
                     if writable (respMessage w2) \<and> \<not> locked stream
                     then (None, read_loop (chunks stream) w2)
                     else (None, on_transport endMessage w2)
                 | None \<Rightarrow> (None, on_transport endMessage w2))))"

subsection \<open>Plain objects (lines 146--153)\<close>

text \<open>
  The \<^verbatim>\<open>reason-phrase\<close> production that \<^verbatim>\<open>new Response\<close> holds
  \<^verbatim>\<open>init.statusText\<close> to: tabs, spaces, visible characters and bytes from 128 on.
\<close>

definition valid_reason_phrase :: "string \<Rightarrow> bool" where
  "valid_reason_phrase txt =
     list_all (\<lambda>c. (of_char c :: nat) = 9 \<or> (32 \<le> (of_char c :: nat) \<and> (of_char c :: nat) \<noteq> 127))
       txt"

text \<open>
  \<^verbatim>\<open>new Response(body, { status, statusText, headers })\<close>, in the order of the Fetch
  standard: \<^verbatim>\<open>init.status\<close> is an \<^verbatim>\<open>unsigned short\<close>, so the number is taken
  modulo 65536; a \<^verbatim>\<open>RangeError\<close> for a status outside 200..599; a \<^verbatim>\<open>TypeError\<close> for
  a status text that is no reason phrase; the headers are filled, which may throw; a
  \<^verbatim>\<open>TypeError\<close> for a body with a null-body status.
\<close>

definition new_Response ::
  "env \<Rightarrow> string option \<Rightarrow> nat \<Rightarrow> string option \<Rightarrow> (string \<times> string) list \<Rightarrow> val + response" where
  "new_Response env b st txt hs =
     (let st' = st mod 65536;
          txt' = (case txt of None \<Rightarrow> [] | Some t \<Rightarrow> t)
      in if st' < 200 \<or> 599 < st'
         then Inl (ErrorV (RangeError ''The status provided is outside the range [200, 599].''))
         else if \<not> valid_reason_phrase txt'
         then Inl (ErrorV (TypeError ''Invalid statusText''))
         else
           (case Response_headers env b hs of
              Inl e \<Rightarrow> Inl e
            | Inr hs' \<Rightarrow>
                if b \<noteq> None \<and> (st' = 204 \<or> st' = 205 \<or> st' = 304)
                then Inl (ErrorV (TypeError ''Response with null body status cannot have body''))
                else Inr \<lparr>status = st', statusText = txt', headers = hs',
                          body = map_option (\<lambda>c. BodyStream False [c]) b\<rparr>))"

definition no_fields :: plainobj where
  "no_fields = \<lparr>o_headers = None, o_body = None, o_status = None, o_statusText = None\<rparr>"

text \<open>
  Modelled from the spec: \<^verbatim>\<open>HTTPError.js\<close> is missing; the spec describes a
  structured error of a message, an HTTP status and an optional cause, so an
  \<^verbatim>\<open>HTTPError\<close> shows its \<^verbatim>\<open>status\<close> and none of the other three fields
  that the destructuring reads from a non-null object that is not a \<^verbatim>\<open>Response\<close>.
  Any other \<^verbatim>\<open>Error\<close> and a \<^verbatim>\<open>URL\<close> have none of the four.
\<close>

fun fields_of :: "val \<Rightarrow> plainobj" where
  "fields_of (ObjectV ob) = ob"
| "fields_of (ErrorV (HTTPError _ st _)) = no_fields\<lparr>o_status := Some st\<rparr>"
| "fields_of _ = no_fields"

definition normalize :: "env \<Rightarrow> val \<Rightarrow> val + response" where
  "normalize env v =
     (let ob = fields_of v
      in new_Response env (o_body ob)
           (case o_status ob of None \<Rightarrow> 200 | Some st \<Rightarrow> st)
           (o_statusText ob)
           (case o_headers ob of None \<Rightarrow> [] | Some hs \<Rightarrow> hs))"

subsection \<open>\<^verbatim>\<open>_send\<close>\<close>

fun send_rank :: "val \<Rightarrow> nat" where
  "send_rank (ResponseV _) = 0"
| "send_rank Null = 0"
| "send_rank (ObjectV _) = 1"
| "send_rank (ErrorV _) = 1"
| "send_rank (URLV _) = 1"
| "send_rank Undefined = 2"
| "send_rank (Str _) = 2"

function (sequential) send ::
  "env \<Rightarrow> postprocessor list \<Rightarrow> val \<Rightarrow> world \<Rightarrow> val option \<times> world" where
  "send env pps (ResponseV resp) w =
     (if aborted (ctrl w) then (None, abort_reply w) else send_response pps resp w)"
| "send env pps Null w =
     (if aborted (ctrl w) then (None, abort_reply w)
      else (Some (ErrorV (TypeError ''Cannot destructure null'')), w))"
| "send env pps (ObjectV ob) w =
     (if aborted (ctrl w) then (None, abort_reply w)
      else
        (case normalize env (ObjectV ob) of
           Inl e \<Rightarrow> (Some e, w)
         | Inr r \<Rightarrow> send env pps (ResponseV r) w))"
| "send env pps (ErrorV e) w =
     (if aborted (ctrl w) then (None, abort_reply w)
      else
        (case normalize env (ErrorV e) of
           Inl x \<Rightarrow> (Some x, w)
         | Inr r \<Rightarrow> send env pps (ResponseV r) w))"
| "send env pps (URLV u) w =
     (if aborted (ctrl w) then (None, abort_reply w)
      else
        (case normalize env (URLV u) of
           Inl e \<Rightarrow> (Some e, w)
         | Inr r \<Rightarrow> send env pps (ResponseV r) w))"
| "send env pps v w =
     (if aborted (ctrl w) then (None, abort_reply w)
      else send env pps
             (ErrorV (HTTPError ''Invalid response.'' (HTTPError_default_status env) None)) w)"
  by pat_completeness auto
termination
  by (relation "measure (\<lambda>(env, pps, v, w). send_rank v)") auto

subsection \<open>Aborts and failures while the body is read (lines 105--141)\<close>

text \<open>
  \<^verbatim>\<open>send\<close> above runs the read loop to its end. What follows is the same loop with
  everything that can happen while \<^verbatim>\<open>reader.read()\<close> is awaited: the read yields a
  chunk, the stream ends, the read fails, or the signal aborts (the socket closes, the
  timeout fires).
\<close>

datatype stream_event = ChunkRead chunk | EndOfStream | ReadFails val | AbortFires val

datatype stream_status = Readable | Closed | Errored val | Cancelled val

text \<open>
  The state of lines 105--141: \<^verbatim>\<open>context.signal\<close>; \<^verbatim>\<open>body.locked\<close>; the state of
  the stream \<^verbatim>\<open>body\<close> (\<^verbatim>\<open>Cancelled r\<close>: its source was cancelled with \<^verbatim>\<open>r\<close>);
  whether a read is awaited; the reasons of the callbacks chained on
  \<^verbatim>\<open>reader.closed\<close> that may still run; \<^verbatim>\<open>respMessage\<close>; what it was destroyed
  with; and what was thrown out of the \<^verbatim>\<open>abort\<close> listener.
\<close>

record streaming =
  token :: abort_signal
  body_locked :: bool
  body_status :: stream_status
  read_awaited :: bool
  closed_then :: "val list"
  sink :: transport
  destroyed :: "val option"
  unhandled :: "val list"

text \<open>
  \<^verbatim>\<open>body.cancel(reason).catch(_noop)\<close>: the source of a readable, unlocked stream is
  cancelled with the reason; on a locked stream the promise rejects, on a stream that is
  closed or errored nothing is left to cancel.
\<close>

definition body_cancel :: "val \<Rightarrow> streaming \<Rightarrow> streaming" where
  "body_cancel r s =
     (if \<not> body_locked s \<and> body_status s = Readable then s\<lparr>body_status := Cancelled r\<rparr> else s)"

text \<open>
  \<^verbatim>\<open>reader.closed.then(() => { body.cancel(reason).catch(_noop); }).catch(_noop)\<close>: the
  callback waits while the stream is readable, runs if the stream has closed, and is
  dropped if \<^verbatim>\<open>reader.closed\<close> has rejected.
\<close>

definition chain_on_closed :: "val \<Rightarrow> streaming \<Rightarrow> streaming" where
  "chain_on_closed r s =
     (case body_status s of
        Readable \<Rightarrow> s\<lparr>closed_then := closed_then s @ [r]\<rparr>
      | Closed \<Rightarrow> body_cancel r s
      | _ \<Rightarrow> s)"

text \<open>
  \<^verbatim>\<open>reader.releaseLock()\<close>. The result is what it throws, what the pending read rejects
  with, and the state. Releasing rejects \<^verbatim>\<open>reader.closed\<close>, so the callbacks that
  wait on it are dropped.
\<close>

definition releaseLock ::
  "release_semantics \<Rightarrow> streaming \<Rightarrow> val option \<times> val option \<times> streaming" where
  "releaseLock rel s =
     (if read_awaited s
      then (case rel of
              ReleaseThrows e \<Rightarrow> (Some e, None, s)
            | ReleaseRejects e \<Rightarrow>
                (None, Some e, s\<lparr>body_locked := False, read_awaited := False, closed_then := []\<rparr>))
      else (None, None, s\<lparr>body_locked := False, closed_then := []\<rparr>))"

text \<open>The closure \<^verbatim>\<open>cancel\<close> of lines 107--117.\<close>

definition cancel ::
  "release_semantics \<Rightarrow> val \<Rightarrow> streaming \<Rightarrow> val option \<times> val option \<times> streaming" where
  "cancel rel r s =
     (if body_locked s then releaseLock rel (chain_on_closed r s)
      else (None, None, body_cancel r s))"

text \<open>The \<^verbatim>\<open>catch\<close> of lines 138--141: \<^verbatim>\<open>respMessage.destroy(err); cancel(err)\<close>.\<close>

definition on_catch :: "release_semantics \<Rightarrow> val \<Rightarrow> streaming \<Rightarrow> streaming" where
  "on_catch rel err s =
     snd (snd (cancel rel err
       (s\<lparr>destroyed := Some err, sink := (sink s)\<lparr>writable := False\<rparr>\<rparr>)))"

text \<open>
  The loop of lines 123--134 over the events that arrive while a read is awaited.
  A chunk is written and the loop tests the signal again. At the end of the stream
  \<^verbatim>\<open>reader.closed\<close> fulfils and its callbacks run, then
  \<^verbatim>\<open>reader.releaseLock(); respMessage.end(); body.cancel('Done')\<close>. A failed read goes
  to the \<^verbatim>\<open>catch\<close>. An abort (once per signal) runs the listener of line 120,
  \<^verbatim>\<open>cancel(target.reason)\<close>: if \<^verbatim>\<open>releaseLock\<close> throws, the exception leaves the
  listener and the read is still awaited; if it rejects the pending read, the
  \<^verbatim>\<open>await\<close> throws and the \<^verbatim>\<open>catch\<close> runs. When the events run out, the read is
  still awaited.
\<close>

fun read_events :: "release_semantics \<Rightarrow> stream_event list \<Rightarrow> streaming \<Rightarrow> streaming" where
  "read_events rel [] s = s"
| "read_events rel (ChunkRead c # es) s =
     (let s1 = s\<lparr>sink := writeChunk (Data c) (sink s)\<rparr>
      in if aborted (token s1) then s1\<lparr>read_awaited := False\<rparr> else read_events rel es s1)"
| "read_events rel (EndOfStream # es) s =
     (let s1 = foldl (\<lambda>s' r. body_cancel r s')
                 (s\<lparr>body_status := Closed, read_awaited := False\<rparr>) (closed_then s);
          s2 = snd (snd (releaseLock rel s1));
          s3 = s2\<lparr>sink := endMessage (sink s2)\<rparr>
      in body_cancel (Str ''Done'') s3)"
| "read_events rel (ReadFails e # es) s =
     on_catch rel e (s\<lparr>body_status := Errored e, read_awaited := False, closed_then := []\<rparr>)"
| "read_events rel (AbortFires r # es) s =
     (if aborted (token s) then read_events rel es s
      else
        (case cancel rel (abort_reason r) (s\<lparr>token := aborted_signal (abort_reason r)\<rparr>) of
           (Some thrown, _, s1) \<Rightarrow> read_events rel es (s1\<lparr>unhandled := unhandled s1 @ [thrown]\<rparr>)
         | (None, Some e, s1) \<Rightarrow> on_catch rel e s1
         | (None, None, s1) \<Rightarrow> read_events rel es s1))"

text \<open>
  Lines 105--122: \<^verbatim>\<open>body.getReader()\<close> locks the body, the listener is added, and the
  loop is entered with the first read awaited, unless the signal is aborted already.
\<close>

definition start_streaming :: "world \<Rightarrow> streaming" where
  "start_streaming w =
     \<lparr>token = ctrl w, body_locked = True, body_status = Readable, read_awaited = True,
      closed_then = [], sink = respMessage w, destroyed = None, unhandled = []\<rparr>"

definition stream_body :: "env \<Rightarrow> stream_event list \<Rightarrow> world \<Rightarrow> streaming" where
  "stream_body env es w =
     (if aborted (ctrl w) then (start_streaming w)\<lparr>read_awaited := False\<rparr>
      else read_events (releaseLock_pending env) es (start_streaming w))"

section \<open>The request pipeline\<close>

record config =
  staticRoot :: string
  ROUTES :: "(urlpattern \<times> target) list"
  requestPreprocessors :: "jsfun list"
  responsePostprocessors :: "postprocessor list"
  logger :: bool

subsection \<open>The route table (lines 190 and 201)\<close>

text \<open>
  \<^verbatim>\<open>new Map(Object.entries(routes).map(([pattern, module]) =>
    [new URLPattern(pattern, url), resolveModulePath(module)]))\<close>.
  Every \<^verbatim>\<open>URLPattern\<close> is a new object, a key of its own in the \<^verbatim>\<open>Map\<close>: the first
  argument of \<^verbatim>\<open>URLPattern\<close> is that identity, here the position of the entry. The
  \<^verbatim>\<open>Map\<close> keeps the order of \<^verbatim>\<open>Object.entries(routes)\<close>.
\<close>

definition make_ROUTES ::
  "env \<Rightarrow> string \<Rightarrow> (string \<times> target) list \<Rightarrow> (urlpattern \<times> target) list" where
  "make_ROUTES env base routes =
     map (\<lambda>(i, entry). (URLPattern i (fst entry) base, resolveModulePath env (snd entry)))
       (enumerate 0 routes)"

text \<open>\<^verbatim>\<open>ROUTES.keys().find(pattern => pattern.test(request.url))\<close>\<close>

definition find_pattern :: "env \<Rightarrow> (urlpattern \<times> target) list \<Rightarrow> string \<Rightarrow> urlpattern option" where
  "find_pattern env rs u = find (\<lambda>pattern. URLPattern_test env pattern u) (map fst rs)"

text \<open>
  \<^verbatim>\<open>ROUTES.get(pattern)\<close>; a key that is not in the map gives \<^verbatim>\<open>undefined\<close>, which
  the code would then hand to \<^verbatim>\<open>import\<close>.
\<close>

definition ROUTES_get :: "(urlpattern \<times> target) list \<Rightarrow> urlpattern \<Rightarrow> target" where
  "ROUTES_get rs pattern =
     (case map_of rs pattern of Some m \<Rightarrow> m | None \<Rightarrow> SpecifierT ''undefined'')"

subsection \<open>Preprocessors (lines 244--245)\<close>

text \<open>
  \<^verbatim>\<open>requestPreprocessors.map(plugin => plugin(request, context))\<close> calls the plugins in
  order, outside any \<^verbatim>\<open>Promise.try\<close>: a plugin that throws ends the \<^verbatim>\<open>map\<close> and the
  \<^verbatim>\<open>try\<close> block (\<^verbatim>\<open>Inl\<close>), and the plugins after it are not called. Otherwise
  \<^verbatim>\<open>Promise.allSettled\<close> waits for all, and the reasons of the rejected ones are
  collected in the order of the plugins.
\<close>

fun fanout :: "(action list \<times> completion) list \<Rightarrow> world \<Rightarrow> (val + val list) \<times> world" where
  "fanout [] w = (Inr [], w)"
| "fanout ((effs, Throws e) # rs) w = (Inl e, perform_all effs w)"
| "fanout ((effs, Rejects e) # rs) w =
     (case fanout rs (perform_all effs w) of
        (Inl x, w') \<Rightarrow> (Inl x, w')
      | (Inr es, w') \<Rightarrow> (Inr (e # es), w'))"
| "fanout ((effs, Returns v) # rs) w = fanout rs (perform_all effs w)"

text \<open>
  \<^verbatim>\<open>results.filter(result => result.status === 'rejected').map(result => result.reason)\<close>
  as a function of what the plugins did: the reasons of those whose promise rejected, in
  the order of the plugins.
\<close>

fun rejections :: "(action list \<times> completion) list \<Rightarrow> val list" where
  "rejections [] = []"
| "rejections ((effs, Rejects e) # rs) = e # rejections rs"
| "rejections ((effs, c) # rs) = rejections rs"

subsection \<open>Route handling (lines 256--281)\<close>

text \<open>The text of \<^verbatim>\<open>${moduleSpecifier}\<close>: the source of a function, or the specifier.\<close>

fun module_text :: "target \<Rightarrow> string" where
  "module_text (FunctionT src _) = src"
| "module_text (SpecifierT s) = s"

text \<open>\<^verbatim>\<open>Promise.try(() => module.default(request, context)).catch(err => err)\<close>\<close>

fun completion_value :: "completion \<Rightarrow> val" where
  "completion_value (Returns v) = v"
| "completion_value (Rejects e) = e"
| "completion_value (Throws e) = e"

text \<open>\<^verbatim>\<open>Response.redirect(resp)\<close>\<close>

definition Response_redirect :: "string \<Rightarrow> response" where
  "Response_redirect u =
     \<lparr>status = 302, statusText = [], headers = [(''location'', u)], body = None\<rparr>"

definition no_response :: "target \<Rightarrow> val" where
  "no_response m = ErrorV (TypeError (module_text m @ '' did not return a response.''))"

definition classify :: "target \<Rightarrow> val \<Rightarrow> world \<Rightarrow> world" where
  "classify m resp w =
     (case resp of
        ResponseV r \<Rightarrow> resolve resp w
      | URLV u \<Rightarrow> resolve (ResponseV (Response_redirect u)) w
      | ErrorV e \<Rightarrow> reject resp w
      | _ \<Rightarrow> reject (no_response m) w)"

definition run_handler :: "jsfun \<Rightarrow> target \<Rightarrow> request \<Rightarrow> world \<Rightarrow> world" where
  "run_handler h m req w =
     (case h req of
        (effs, c) \<Rightarrow>
          classify m (completion_value c) (perform_all effs (record_event HandlerCalled w)))"

text \<open>
  Line 265 calls \<^verbatim>\<open>HTTPError(...)\<close> without \<^verbatim>\<open>new\<close>. \<^verbatim>\<open>HTTPError\<close> is a class:
  every other place constructs it with \<^verbatim>\<open>new HTTPError(...)\<close>, and line 306 tests
  \<^verbatim>\<open>err instanceof HTTPError\<close>. A class that is called without \<^verbatim>\<open>new\<close> throws a
  \<^verbatim>\<open>TypeError\<close> before \<^verbatim>\<open>reject\<close> is reached; the \<^verbatim>\<open>catch\<close> of line 295 then
  rejects with that \<^verbatim>\<open>TypeError\<close>. So this is the value the request is rejected with
  when the module has no callable default export; the error the line was written to
  build is \<^verbatim>\<open>intended_routing_error\<close>.
\<close>

definition missing_default_export :: "target \<Rightarrow> val" where
  "missing_default_export m =
     ErrorV (TypeError ''Class constructor HTTPError cannot be invoked without new'')"

definition intended_routing_error :: "target \<Rightarrow> val" where
  "intended_routing_error m =
     ErrorV (HTTPError ''There was an error handling the request.'' 500
       (Some (ErrorV (Error (module_text m @ '' is missing a default export.'')))))"

text \<open>
  \<^verbatim>\<open>await import(moduleSpecifier).catch(err => err)\<close> and the tests on \<^verbatim>\<open>module\<close>.
  Reading \<^verbatim>\<open>module.default\<close> of \<^verbatim>\<open>undefined\<close> or \<^verbatim>\<open>null\<close> throws, and the
  \<^verbatim>\<open>catch\<close> of line 295 rejects with what was thrown.
\<close>

fun after_import :: "imported \<Rightarrow> target \<Rightarrow> request \<Rightarrow> world \<Rightarrow> world" where
  "after_import (ImportRejects (ErrorV e)) m req w = reject (ErrorV e) w"
| "after_import (ImportRejects Undefined) m req w =
     reject (ErrorV (TypeError ''Cannot read properties of undefined (reading default)'')) w"
| "after_import (ImportRejects Null) m req w =
     reject (ErrorV (TypeError ''Cannot read properties of null (reading default)'')) w"
| "after_import (ModuleNS (DefaultFunction h)) m req w = run_handler h m req w"
| "after_import _ m req w = reject (missing_default_export m) w"

fun route_branch :: "env \<Rightarrow> target \<Rightarrow> request \<Rightarrow> world \<Rightarrow> world" where
  "route_branch env (FunctionT src h) req w = run_handler h (FunctionT src h) req w"
| "route_branch env (SpecifierT s) req w =
     after_import (import_module env s) (SpecifierT s) req (record_event (Import s) w)"

subsection \<open>Static files (lines 282--294)\<close>

definition not_found :: "request \<Rightarrow> val" where
  "not_found req = ErrorV (HTTPError (''<'' @ url req @ ''> not found.'') 404 None)"

definition static_branch :: "env \<Rightarrow> fileurl \<Rightarrow> request \<Rightarrow> world \<Rightarrow> world" where
  "static_branch env fileURL req w =
     (case resolveStaticPath env (pathname fileURL) of
        Some resolved \<Rightarrow> resolve (ResponseV (respondWithFile env resolved)) w
      | None \<Rightarrow> reject (not_found req) w)"

subsection \<open>The \<^verbatim>\<open>try\<close> block (lines 240--297)\<close>

text \<open>
  \<^verbatim>\<open>existsSync(fileURL)\<close> is evaluated only when the conditions before it failed and
  the request is not settled; the trace records that evaluation.
\<close>

definition pipeline :: "env \<Rightarrow> config \<Rightarrow> request \<Rightarrow> world \<Rightarrow> world" where
  "pipeline env cfg req w0 =
     (let fileURL = getFileURL env (url req) (staticRoot cfg);
          pattern = find_pattern env (ROUTES cfg) (url req)
      in case fanout (map (\<lambda>plugin. plugin req) (requestPreprocessors cfg)) w0 of
           (Inl err, w) \<Rightarrow> reject err w
         | (Inr hookErrs, w) \<Rightarrow>
             if aborted (request_signal w) then reject (reason (request_signal w)) w
             else if length hookErrs = 1 then reject (hd hookErrs) w
             else if length hookErrs \<noteq> 0 then reject (ErrorV (AggregateError hookErrs)) w
             else if aborted (ctrl w) then reject (reason (ctrl w)) w
             else if \<not> settled w \<and> pattern \<noteq> None
             then route_branch env (ROUTES_get (ROUTES cfg) (the pattern)) req w
             else if \<not> settled w \<and> existsSync env fileURL
             then static_branch env fileURL req (record_event (ExistsSync (href fileURL)) w)
             else if \<not> settled w
             then reject (not_found req) (record_event (ExistsSync (href fileURL)) w)
             else w)"

subsection \<open>Sending the outcome (lines 299--311)\<close>

text \<open>
  The error whose \<^verbatim>\<open>response\<close> the \<^verbatim>\<open>catch\<close> handler sends (lines 306--310): the
  rejection itself when it is an \<^verbatim>\<open>HTTPError\<close>, otherwise a new one of status 500
  with the rejection as its cause.
\<close>

definition error_sent :: "val \<Rightarrow> error" where
  "error_sent err =
     (case err of
        ErrorV (HTTPError m st c) \<Rightarrow> HTTPError m st c
      | _ \<Rightarrow> HTTPError ''An unknown error occured'' 500 (Some err))"

definition on_rejected :: "env \<Rightarrow> config \<Rightarrow> val \<Rightarrow> world \<Rightarrow> val option \<times> world" where
  "on_rejected env cfg err w =
     (let w1 = (if logger cfg then record_event (Logged err) w else w)
      in send env (responsePostprocessors cfg)
           (ResponseV (HTTPError_response env (error_sent err))) w1)"

text \<open>
  \<^verbatim>\<open>promise.then(resp => _send(...)).catch(async err => ...)\<close>: the \<^verbatim>\<open>catch\<close> also
  receives what \<^verbatim>\<open>_send\<close> throws. The first component of the result is what the
  request callback's own promise rejects with, if it does.
\<close>

definition respond :: "env \<Rightarrow> config \<Rightarrow> world \<Rightarrow> val option \<times> world" where
  "respond env cfg w =
     (case promise w of
        None \<Rightarrow> (None, w)
      | Some (Fulfilled resp) \<Rightarrow>
          (case send env (responsePostprocessors cfg) resp w of
             (None, w1) \<Rightarrow> (None, w1)
           | (Some err, w1) \<Rightarrow> on_rejected env cfg err w1)
      | Some (Rejected err) \<Rightarrow> on_rejected env cfg err w)"

definition handle_request :: "env \<Rightarrow> config \<Rightarrow> request \<Rightarrow> world \<Rightarrow> val option \<times> world" where
  "handle_request env cfg req w0 = respond env cfg (pipeline env cfg req w0)"

section \<open>A concrete server for the examples\<close>

text \<open>
  A platform and a configuration on which the model can be run: a pattern matches the
  URL that is the base URL followed by the pattern, a pattern that ends in \<^verbatim>\<open>*\<close>
  every URL that starts with the base URL and the pattern up to the \<^verbatim>\<open>*\<close>; every
  static file exists; \<^verbatim>\<open>./broken.js\<close> is a module without a default export; an
  \<^verbatim>\<open>HTTPError\<close> gives a response of its own status; a new \<^verbatim>\<open>Response\<close> with a
  string body and no content type gets \<^verbatim>\<open>text/plain;charset=UTF-8\<close>; and
  \<^verbatim>\<open>releaseLock\<close> follows the Streams standard.
\<close>

definition demo_base :: string where
  "demo_base = ''http://localhost:8080''"

definition demo_test :: "urlpattern \<Rightarrow> string \<Rightarrow> bool" where
  "demo_test p u =
     (case p of
        URLPattern i pat base \<Rightarrow>
          if pat \<noteq> [] \<and> last pat = CHR ''*''
          then take (length (base @ butlast pat)) u = base @ butlast pat
          else u = base @ pat)"

definition demo_error_response :: "error \<Rightarrow> response" where
  "demo_error_response e =
     \<lparr>status = (case e of HTTPError m st c \<Rightarrow> st | _ \<Rightarrow> 500),
      statusText = [],
      headers = [(''content-type'', ''application/json'')],
      body = Some (BodyStream False [error_message e])\<rparr>"

definition demo_env :: env where
  "demo_env =
     \<lparr>URLPattern_test = demo_test,
      resolveModulePath = (\<lambda>m. m),
      import_module = (\<lambda>s. if s = ''./broken.js'' then ModuleNS DefaultOther
                            else ImportRejects (ErrorV (Error ''Cannot find module''))),
      getFileURL = (\<lambda>u root. \<lparr>href = ''file://'' @ root @ drop (length demo_base) u,
                                pathname = root @ drop (length demo_base) u\<rparr>),
      existsSync = (\<lambda>f. True),
      resolveStaticPath = (\<lambda>p. Some p),
      respondWithFile = (\<lambda>p. \<lparr>status = 200, statusText = ''OK'', headers = [],
                                body = Some (BodyStream False [p])\<rparr>),
      HTTPError_response = demo_error_response,
      HTTPError_default_status = 500,
      Response_headers =
        (\<lambda>b hs. Inr (if b \<noteq> None \<and> ''content-type'' \<notin> set (map fst hs)
                       then hs @ [(''content-type'', ''text/plain;charset=UTF-8'')]
                       else hs)),
      releaseLock_pending = ReleaseRejects (ErrorV (TypeError ''Releasing reader''))\<rparr>"

definition demo_request :: request where
  "demo_request = \<lparr>url = ''http://localhost:8080/api/items''\<rparr>"

definition demo_response :: response where
  "demo_response =
     \<lparr>status = 200, statusText = ''OK'', headers = [(''content-type'', ''text/plain'')],
      body = Some (BodyStream False [''hello'', ''world''])\<rparr>"

definition demo_object :: plainobj where
  "demo_object = \<lparr>o_headers = None, o_body = Some ''ok'', o_status = Some 201,
     o_statusText = None\<rparr>"

definition demo_config :: "(string \<times> target) list \<Rightarrow> jsfun list \<Rightarrow> postprocessor list \<Rightarrow> config" where
  "demo_config routes pres posts =
     \<lparr>staticRoot = ''/srv'', ROUTES = make_ROUTES demo_env demo_base routes,
      requestPreprocessors = pres, responsePostprocessors = posts, logger = True\<rparr>"

definition demo_world :: world where
  "demo_world = new_world None fresh_transport"

definition opaque_response :: response where
  "opaque_response = \<lparr>status = 0, statusText = [], headers = [], body = None\<rparr>"

definition moved_response :: response where
  "moved_response =
     \<lparr>status = 301, statusText = [], headers = [(''location'', ''http://localhost:8080/new'')],
      body = Some (BodyStream False [''moved''])\<rparr>"

text \<open>
  Handlers: one that returns a plain object, two that return a \<^verbatim>\<open>Response\<close>, and one
  during whose run the signal passed to \<^verbatim>\<open>serve\<close> aborts.
\<close>

definition created_handler :: jsfun where
  "created_handler req = ([], Returns (ObjectV demo_object))"

definition hello_handler :: jsfun where
  "hello_handler req = ([], Returns (ResponseV demo_response))"

definition items_handler :: jsfun where
  "items_handler req =
     ([], Returns (ResponseV \<lparr>status = 200, statusText = ''OK'', headers = [],
                               body = Some (BodyStream False [''items''])\<rparr>))"

definition shutdown_handler :: jsfun where
  "shutdown_handler req = ([PassedAbort (Str ''shutdown'')], Returns (ResponseV demo_response))"

definition demo_routes :: "(string \<times> target) list" where
  "demo_routes =
     [(''/admin/*'', FunctionT ''admin'' hello_handler),
      (''/api/*'', FunctionT ''hello'' hello_handler),
      (''/api/items'', FunctionT ''items'' items_handler)]"

text \<open>
  Preprocessors: one that resolves the request through the context and then fails,
  two that fail, one that passes.
\<close>

definition resolving_preprocessor :: jsfun where
  "resolving_preprocessor req =
     ([Settle (Resolve (ResponseV demo_response))], Rejects (ErrorV (Error ''denied'')))"

definition denying_preprocessor :: jsfun where
  "denying_preprocessor req = ([], Rejects (ErrorV (Error ''denied'')))"

definition limiting_preprocessor :: jsfun where
  "limiting_preprocessor req = ([], Rejects (ErrorV (HTTPError ''Too many requests'' 429 None)))"

definition passing_preprocessor :: jsfun where
  "passing_preprocessor req = ([], Returns Undefined)"

text \<open>
  Postprocessors: one that settles with \<^verbatim>\<open>null\<close>, two that contribute a transform
  (each marks the chunks it sees), one that fails.
\<close>

definition null_postprocessor :: postprocessor where
  "null_postprocessor resp = ([], Fulfils NullValue)"

definition shout :: tstream where
  "shout = TStream ''shout'' (map (\<lambda>c. c @ ''!''))"

definition wrap :: tstream where
  "wrap = TStream ''wrap'' (map (\<lambda>c. ''<'' @ c @ ''>''))"

definition shout_postprocessor :: postprocessor where
  "shout_postprocessor resp = ([], Fulfils (TransformStreamV shout))"

definition wrap_postprocessor :: postprocessor where
  "wrap_postprocessor resp = ([], Fulfils (ObjectPair True True wrap))"

definition failing_postprocessor :: postprocessor where
  "failing_postprocessor resp = ([], Fails (ErrorV (Error ''no'')))"

section \<open>An invariant of the request state\<close>

text \<open>
  The \<^verbatim>\<open>settled\<close> flag is set exactly when the promise is no longer pending.
\<close>

definition consistent :: "world \<Rightarrow> bool" where
  "consistent w \<longleftrightarrow> settled w = (promise w \<noteq> None)"

text \<open>
  The equations that unfold the model and the examples when a run is evaluated.
\<close>

lemmas model_defs = new_world_def fresh_transport_def pending_signal_def aborted_signal_def
  request_signal_def resolve_def reject_def resolveRequest_def rejectRequest_def
  controller_abort_def passed_abort_def perform_all_def
  setHeader_def appendHeader_def writeHead_def writeChunk_def endMessage_def on_transport_def
  record_event_def isImmutableResponse_def abort_body_def abort_reply_def select_body_def
  getSetCookie_def write_headers_def send_response_def valid_reason_phrase_def
  new_Response_def no_fields_def
  normalize_def make_ROUTES_def find_pattern_def ROUTES_get_def Response_redirect_def
  no_response_def classify_def run_handler_def missing_default_export_def
  intended_routing_error_def not_found_def
  static_branch_def pipeline_def error_sent_def on_rejected_def respond_def handle_request_def Let_def
  enumerate_eq_zip

lemmas stream_defs = body_cancel_def chain_on_closed_def releaseLock_def cancel_def on_catch_def
  start_streaming_def stream_body_def

lemmas demo_defs = demo_base_def demo_test_def demo_error_response_def demo_env_def
  demo_request_def demo_response_def demo_object_def demo_config_def demo_world_def
  created_handler_def hello_handler_def items_handler_def shutdown_handler_def
  null_postprocessor_def shout_def wrap_def shout_postprocessor_def wrap_postprocessor_def
  failing_postprocessor_def opaque_response_def moved_response_def
  resolving_preprocessor_def denying_preprocessor_def passing_preprocessor_def
  limiting_preprocessor_def demo_routes_def

lemma consistent_new_world: "consistent (new_world passed t)"
  by (simp add: consistent_def new_world_def)

lemma consistent_callback: "consistent w \<Longrightarrow> consistent (callback c w)"
  by (cases c)
    (auto simp: consistent_def resolve_def reject_def resolveRequest_def rejectRequest_def)

lemma consistent_perform: "consistent w \<Longrightarrow> consistent (perform a w)"
proof (cases a)
  case (Settle c)
  assume "consistent w"
  then show ?thesis
    by (simp add: Settle consistent_callback)
next
  case (CtrlAbort r)
  assume "consistent w"
  then show ?thesis
    by (simp add: CtrlAbort consistent_def controller_abort_def)
next
  case (PassedAbort r)
  assume "consistent w"
  then show ?thesis
    by (simp add: PassedAbort consistent_def passed_abort_def split: option.splits)
qed

lemma consistent_perform_all: "consistent w \<Longrightarrow> consistent (perform_all as w)"
  unfolding perform_all_def by (induction as arbitrary: w) (simp_all add: consistent_perform)

lemma consistent_fanout: "consistent w \<Longrightarrow> consistent (snd (fanout rs w))"
proof (induction rs w rule: fanout.induct)
  case (1 w)
  then show ?case by simp
next
  case (2 effs e rs w)
  then show ?case by (simp add: consistent_perform_all)
next
  case (3 effs e rs w)
  then show ?case by (auto simp: consistent_perform_all split: prod.splits sum.splits)
next
  case (4 effs v rs w)
  then show ?case by (simp add: consistent_perform_all)
qed

section \<open>Settlement is exactly-once\<close>

lemma callback_settled: "settled w \<Longrightarrow> callback c w = w"
  by (cases c) (simp_all add: resolve_def reject_def)

lemma callback_sets_settled: "settled (callback c w)"
  by (cases c) (simp_all add: resolve_def reject_def resolveRequest_def rejectRequest_def)

lemma callbacks_settled: "settled w \<Longrightarrow> callbacks cs w = w"
  by (induction cs) (simp_all add: callbacks_def callback_settled)

lemma callback_first:
  "\<not> settled w \<Longrightarrow> promise w = None \<Longrightarrow> promise (callback c w) = Some (outcome_of c)"
  by (cases c) (simp_all add: resolve_def reject_def resolveRequest_def rejectRequest_def)

lemma callbacks_Cons: "callbacks (c # cs) w = callbacks cs (callback c w)"
  by (simp add: callbacks_def)

lemma reject_pending:
  "\<not> settled w \<Longrightarrow> promise w = None \<Longrightarrow> promise (reject r w) = Some (Rejected r)"
  by (simp add: reject_def rejectRequest_def)

lemma resolve_pending:
  "\<not> settled w \<Longrightarrow> promise w = None \<Longrightarrow> promise (resolve r w) = Some (Fulfilled r)"
  by (simp add: resolve_def resolveRequest_def)

text \<open>
  Claim C2. On a context whose promise is still pending (as it is at line 204), after any
  non-empty sequence of calls to \<^verbatim>\<open>resolve\<close> and \<^verbatim>\<open>reject\<close>, in any order and
  multiplicity, the outcome is the argument of the first call (fulfilled if that call
  was \<^verbatim>\<open>resolve\<close>, rejected if it was \<^verbatim>\<open>reject\<close>), and every further call
  leaves the whole state as it is.
\<close>

theorem settlement_exactly_once:
  assumes "\<not> settled w" and "promise w = None"
  shows "promise (callbacks (c # cs) w) = Some (outcome_of c)
       \<and> callback d (callbacks (c # cs) w) = callbacks (c # cs) w"
proof -
  have s: "settled (callback c w)"
    by (rule callback_sets_settled)
  have eq: "callbacks (c # cs) w = callback c w"
    using s by (simp add: callbacks_Cons callbacks_settled)
  have "promise (callback c w) = Some (outcome_of c)"
    using assms by (rule callback_first)
  moreover have "callback d (callback c w) = callback c w"
    using s by (rule callback_settled)
  ultimately show ?thesis
    by (simp add: eq)
qed

text \<open>
  Three calls on a new context, then a fourth: the first one stands.
\<close>

theorem settlement_exactly_once_witness:
  "\<not> settled (new_world None fresh_transport)
   \<and> promise (new_world None fresh_transport) = None
   \<and> promise (callbacks [Resolve (Str ''first''), Reject (Str ''second''), Resolve Null]
        (new_world None fresh_transport)) = Some (Fulfilled (Str ''first''))
   \<and> callback (Reject (Str ''late''))
        (callbacks [Resolve (Str ''first''), Reject (Str ''second''), Resolve Null]
          (new_world None fresh_transport))
      = callbacks [Resolve (Str ''first''), Reject (Str ''second''), Resolve Null]
          (new_world None fresh_transport)"
proof -
  have a: "\<not> settled (new_world None fresh_transport)"
    by (simp add: new_world_def)
  have b: "promise (new_world None fresh_transport) = None"
    by (simp add: new_world_def)
  show ?thesis
    using a b
      settlement_exactly_once [OF a b, of "Resolve (Str ''first'')"
        "[Reject (Str ''second''), Resolve Null]" "Reject (Str ''late'')"]
    by simp
qed

section \<open>What the actions of hooks and handlers leave alone\<close>

lemma callback_respMessage [simp]: "respMessage (callback c w) = respMessage w"
  by (cases c) (simp_all add: resolve_def reject_def resolveRequest_def rejectRequest_def)

lemma callback_trace [simp]: "trace (callback c w) = trace w"
  by (cases c) (simp_all add: resolve_def reject_def resolveRequest_def rejectRequest_def)

lemma perform_respMessage [simp]: "respMessage (perform a w) = respMessage w"
  by (cases a) (simp_all add: controller_abort_def passed_abort_def split: option.splits)

lemma perform_trace [simp]: "trace (perform a w) = trace w"
  by (cases a) (simp_all add: controller_abort_def passed_abort_def split: option.splits)

lemma perform_all_respMessage [simp]: "respMessage (perform_all as w) = respMessage w"
  unfolding perform_all_def by (induction as arbitrary: w) simp_all

lemma perform_all_trace [simp]: "trace (perform_all as w) = trace w"
  unfolding perform_all_def by (induction as arbitrary: w) simp_all

lemma fanout_trace [simp]: "trace (snd (fanout rs w)) = trace w"
  by (induction rs w rule: fanout.induct) (auto split: prod.splits sum.splits)

lemma run_postprocessors_respMessage:
  "run_postprocessors pps i resp w = (rs, w') \<Longrightarrow> respMessage w' = respMessage w"
proof (induction pps arbitrary: i w rs w')
  case Nil
  then show ?case by simp
next
  case (Cons pp pps)
  then show ?case
    by (auto simp: record_event_def split: prod.splits)
qed

lemma select_body_respMessage:
  "select_body pps resp w = (r, w') \<Longrightarrow> respMessage w' = respMessage w"
  by (auto simp: select_body_def split: if_splits prod.splits sum.splits
      dest: run_postprocessors_respMessage)

section \<open>The response sender\<close>

subsection \<open>Headers\<close>

lemma heads_write_headers:
  "heads (write_headers resp t) =
     heads t @ [(if status resp = 0 then 500 else status resp, Some (statusText resp))]"
proof -
  have a: "\<And>hs t. heads (foldl (\<lambda>t' h. if fst h \<noteq> ''set-cookie'' then setHeader (fst h) (snd h) t' else t') t hs) = heads t"
    subgoal for hs t by (induction hs arbitrary: t) (simp_all add: setHeader_def)
    done
  have b: "\<And>cs t. heads (foldl (\<lambda>t' cookie. appendHeader ''Set-Cookie'' cookie t') t cs) = heads t"
    subgoal for cs t by (induction cs arbitrary: t) (simp_all add: appendHeader_def)
    done
  show ?thesis
    by (simp add: write_headers_def Let_def writeHead_def a b)
qed

lemma headersSent_write_headers [simp]: "headersSent (write_headers resp t)"
  by (simp add: write_headers_def Let_def writeHead_def)

lemma write_headers_keeps [simp]:
  "writable (write_headers resp t) = writable t"
  "writes (write_headers resp t) = writes t"
proof -
  have a: "\<And>hs t. writable (foldl (\<lambda>t' h. if fst h \<noteq> ''set-cookie'' then setHeader (fst h) (snd h) t' else t') t hs) = writable t
      \<and> writes (foldl (\<lambda>t' h. if fst h \<noteq> ''set-cookie'' then setHeader (fst h) (snd h) t' else t') t hs) = writes t"
    subgoal for hs t by (induction hs arbitrary: t) (simp_all add: setHeader_def)
    done
  have b: "\<And>cs t. writable (foldl (\<lambda>t' cookie. appendHeader ''Set-Cookie'' cookie t') t cs) = writable t
      \<and> writes (foldl (\<lambda>t' cookie. appendHeader ''Set-Cookie'' cookie t') t cs) = writes t"
    subgoal for cs t by (induction cs arbitrary: t) (simp_all add: appendHeader_def)
    done
  show "writable (write_headers resp t) = writable t"
    by (simp add: write_headers_def Let_def writeHead_def a b)
  show "writes (write_headers resp t) = writes t"
    by (simp add: write_headers_def Let_def writeHead_def a b)
qed

lemma abort_reply_sent_heads:
  "headersSent (respMessage w) \<Longrightarrow> heads (respMessage (abort_reply w)) = heads (respMessage w)"
  by (simp add: abort_reply_def Let_def endMessage_def writeChunk_def)

lemma abort_reply_heads:
  "heads (respMessage (abort_reply w)) =
     (if headersSent (respMessage w) then heads (respMessage w)
      else heads (respMessage w) @ [(408, None)])"
  by (simp add: abort_reply_def Let_def endMessage_def writeChunk_def writeHead_def
      setHeader_def)

lemma read_loop_pending:
  "\<not> aborted (ctrl w) \<Longrightarrow>
   read_loop cs w =
     on_transport (\<lambda>t. endMessage (foldl (\<lambda>t' c. writeChunk (Data c) t') t cs)) w"
proof (induction cs arbitrary: w)
  case Nil
  then show ?case by (simp add: on_transport_def)
next
  case (Cons c cs)
  have "\<not> aborted (ctrl (on_transport (writeChunk (Data c)) w))"
    using Cons.prems by (simp add: on_transport_def)
  from Cons.IH [OF this] Cons.prems show ?case
    by (simp add: on_transport_def)
qed

lemma writes_foldl_writeChunk:
  "writes (foldl (\<lambda>t' c. writeChunk (Data c) t') t cs) = writes t @ map Data cs"
  by (induction cs arbitrary: t) (simp_all add: writeChunk_def)

lemma heads_foldl_writeChunk [simp]:
  "heads (foldl (\<lambda>t' c. writeChunk (Data c) t') t cs) = heads t"
  by (induction cs arbitrary: t) (simp_all add: writeChunk_def)

lemma read_loop_heads [simp]: "heads (respMessage (read_loop cs w)) = heads (respMessage w)"
  by (induction cs arbitrary: w) (simp_all add: on_transport_def endMessage_def writeChunk_def)

lemma send_response_heads:
  assumes "\<not> headersSent (respMessage w)" and "fst (send_response pps resp w) = None"
  shows "heads (respMessage (snd (send_response pps resp w))) =
           heads (respMessage w) @
             [(if status resp = 0 then 500 else status resp, Some (statusText resp))]"
proof (cases "select_body pps resp w")
  case (Pair r w1)
  have rm: "respMessage w1 = respMessage w"
    using Pair by (rule select_body_respMessage)
  show ?thesis
  proof (cases r)
    case (Inl e)
    with Pair assms(2) show ?thesis
      by (simp add: send_response_def)
  next
    case (Inr b)
    show ?thesis
      using Pair Inr assms(1) rm
      by (simp add: send_response_def Let_def on_transport_def abort_reply_sent_heads
          endMessage_def heads_write_headers split: option.splits)
  qed
qed

text \<open>
  Claim C10. A send of a \<^verbatim>\<open>Response\<close> that starts with the context's signal not
  aborted and no headers sent, and that completes (the selection of the body did not
  throw), writes exactly one head: its status is 500 if the response's status is 0, and
  the response's own status otherwise.
\<close>

theorem wire_status:
  assumes "\<not> aborted (ctrl w)"
    and "\<not> headersSent (respMessage w)"
    and "fst (send env pps (ResponseV resp) w) = None"
  shows "heads (respMessage (snd (send env pps (ResponseV resp) w))) =
           heads (respMessage w) @
             [(if status resp = 0 then 500 else status resp, Some (statusText resp))]"
  using assms by (simp add: send_response_heads)

text \<open>
  A response of status 0 goes out as 500, one of status 200 as 200.
\<close>

theorem wire_status_witness:
  "\<not> aborted (ctrl demo_world)
   \<and> \<not> headersSent (respMessage demo_world)
   \<and> fst (send demo_env [] (ResponseV opaque_response) demo_world) = None
   \<and> heads (respMessage (snd (send demo_env [] (ResponseV opaque_response) demo_world))) =
       [(500, Some [])]
   \<and> heads (respMessage (snd (send demo_env [] (ResponseV demo_response) demo_world))) =
       [(200, Some ''OK'')]"
proof -
  have a: "\<not> aborted (ctrl demo_world)"
    by (simp add: demo_defs model_defs)
  have b: "\<not> headersSent (respMessage demo_world)"
    by (simp add: demo_defs model_defs)
  have c: "fst (send demo_env [] (ResponseV opaque_response) demo_world) = None"
    by (simp add: demo_defs model_defs)
  have d: "fst (send demo_env [] (ResponseV demo_response) demo_world) = None"
    by (simp add: demo_defs model_defs)
  show ?thesis
    using a b c wire_status [OF a b c] wire_status [OF a b d]
    by (simp add: demo_defs model_defs)
qed

subsection \<open>Immutable responses\<close>

lemma select_body_immutable:
  "isImmutableResponse resp \<Longrightarrow> select_body pps resp w = (Inr (body resp), w)"
  by (simp add: select_body_def)

text \<open>
  Claim C7. For a response that \<^verbatim>\<open>_isImmutableResponse\<close> accepts (status strictly
  between 299 and 309, with a \<^verbatim>\<open>Location\<close> header), the body that is sent is the
  response's own body and the state is untouched: no postprocessor is called. When the
  send starts with the signal not aborted it completes, its trace has no call to a
  postprocessor, and what it writes after the headers are the chunks of the original
  body (nothing for a null or locked body, or when the response is not writable).
\<close>

theorem immutable_bypasses_postprocessors:
  assumes "isImmutableResponse resp" and "\<not> aborted (ctrl w)"
  shows "select_body pps resp w = (Inr (body resp), w)
       \<and> fst (send env pps (ResponseV resp) w) = None
       \<and> trace (snd (send env pps (ResponseV resp) w)) = trace w
       \<and> writes (respMessage (snd (send env pps (ResponseV resp) w))) =
           writes (respMessage w) @
             (case body resp of
                Some s \<Rightarrow>
                  if writable (respMessage w) \<and> \<not> locked s then map Data (chunks s) else []
              | None \<Rightarrow> [])"
proof -
  have sb: "select_body pps resp w = (Inr (body resp), w)"
    using assms(1) by (rule select_body_immutable)
  have p1: "\<not> aborted (ctrl (on_transport (write_headers resp) w))"
    using assms(2) by (simp add: on_transport_def)
  show ?thesis
    using assms(2) sb
    by (simp add: send_response_def Let_def read_loop_pending [OF p1] read_loop_pending
        on_transport_def endMessage_def writes_foldl_writeChunk
        split: option.splits)
qed

text \<open>
  A 301 with a body, and a postprocessor that would have marked its chunks.
\<close>

theorem immutable_bypasses_postprocessors_witness:
  "isImmutableResponse moved_response
   \<and> \<not> aborted (ctrl demo_world)
   \<and> select_body [shout_postprocessor] moved_response demo_world =
       (Inr (Some (BodyStream False [''moved''])), demo_world)
   \<and> trace (snd (send demo_env [shout_postprocessor] (ResponseV moved_response) demo_world)) = []
   \<and> writes (respMessage
         (snd (send demo_env [shout_postprocessor] (ResponseV moved_response) demo_world))) =
       [Data ''moved'']"
proof -
  have a: "isImmutableResponse moved_response"
    by (simp add: demo_defs model_defs)
  have b: "\<not> aborted (ctrl demo_world)"
    by (simp add: demo_defs model_defs)
  show ?thesis
    using a b
      immutable_bypasses_postprocessors [OF a b, of "[shout_postprocessor]" demo_env]
    by (simp add: demo_defs model_defs)
qed

subsection \<open>The abort reply\<close>

lemma send_aborted: "aborted (ctrl w) \<Longrightarrow> send env pps v w = (None, abort_reply w)"
  by (cases v) simp_all

lemma send_response_heads_cases:
  "heads (respMessage (snd (send_response pps resp w))) = heads (respMessage w)
   \<or> (\<not> headersSent (respMessage w)
      \<and> (\<exists>x. heads (respMessage (snd (send_response pps resp w))) = heads (respMessage w) @ [x]))"
proof (cases "select_body pps resp w")
  case (Pair r w1)
  have rm: "respMessage w1 = respMessage w"
    using Pair by (rule select_body_respMessage)
  show ?thesis
  proof (cases r)
    case (Inl e)
    with Pair rm show ?thesis
      by (simp add: send_response_def)
  next
    case (Inr b)
    show ?thesis
    proof (cases "headersSent (respMessage w)")
      case True
      then show ?thesis
        using Pair Inr rm
        by (simp add: send_response_def Let_def on_transport_def abort_reply_sent_heads
            endMessage_def split: option.splits)
    next
      case False
      have "fst (send_response pps resp w) = None"
        using Pair Inr by (simp add: send_response_def Let_def split: option.splits)
      from send_response_heads [OF False this] False show ?thesis
        by simp
    qed
  qed
qed

lemma send_pending_cases:
  "\<not> aborted (ctrl w) \<Longrightarrow>
   (\<exists>e. send env pps v w = (Some e, w)) \<or> (\<exists>r. send env pps v w = send_response pps r w)"
  by (cases v) (auto split: sum.splits)

lemma send_heads_cases:
  "heads (respMessage (snd (send env pps v w))) = heads (respMessage w)
   \<or> (\<not> headersSent (respMessage w)
      \<and> (\<exists>x. heads (respMessage (snd (send env pps v w))) = heads (respMessage w) @ [x]))"
proof (cases "aborted (ctrl w)")
  case True
  then show ?thesis
    by (simp add: send_aborted abort_reply_heads)
next
  case False
  from send_pending_cases [OF False, of env pps v] show ?thesis
  proof
    assume "\<exists>e. send env pps v w = (Some e, w)"
    then show ?thesis by auto
  next
    assume "\<exists>r. send env pps v w = send_response pps r w"
    then obtain r where "send env pps v w = send_response pps r w" ..
    with send_response_heads_cases [of pps r w] show ?thesis by simp
  qed
qed

text \<open>
  Claim C5, as amended. \<^verbatim>\<open>_send\<close> reads \<^verbatim>\<open>context.signal\<close>, the signal of the
  request's own controller; the signal passed to \<^verbatim>\<open>serve\<close> is not consulted. For
  every send that starts with the controller's signal aborted and no headers sent: the
  send sets \<^verbatim>\<open>Content-Type: application/json\<close>, writes the head 408, writes the
  JSON of an \<^verbatim>\<open>HTTPError\<close> of status 408 made from the abort reason when the
  response is writable, and ends the response. And every send, whatever it is given,
  writes at most one head, and none when headers were already sent.
\<close>

theorem aborted_send_replies_408:
  assumes "aborted (ctrl w)" and "\<not> headersSent (respMessage w)"
  shows "send env pps v w = (None, abort_reply w)
       \<and> heads (respMessage (abort_reply w)) = heads (respMessage w) @ [(408, None)]
       \<and> header_ops (respMessage (abort_reply w)) =
           header_ops (respMessage w) @ [SetHeader ''Content-Type'' ''application/json'']
       \<and> writes (respMessage (abort_reply w)) =
           (if writable (respMessage w)
            then writes (respMessage w) @ [abort_body (reason (ctrl w))]
            else writes (respMessage w))
       \<and> ended (respMessage (abort_reply w))
       \<and> (\<forall>v' w'. heads (respMessage (snd (send env pps v' w'))) = heads (respMessage w')
            \<or> (\<not> headersSent (respMessage w')
               \<and> (\<exists>x. heads (respMessage (snd (send env pps v' w'))) =
                         heads (respMessage w') @ [x])))"
proof -
  have "send env pps v w = (None, abort_reply w)"
    using assms(1) by (rule send_aborted)
  moreover have "heads (respMessage (abort_reply w)) = heads (respMessage w) @ [(408, None)]"
    using assms(2) by (simp add: abort_reply_heads)
  moreover have "header_ops (respMessage (abort_reply w)) =
      header_ops (respMessage w) @ [SetHeader ''Content-Type'' ''application/json'']"
    using assms(2)
    by (simp add: abort_reply_def Let_def endMessage_def writeChunk_def writeHead_def
        setHeader_def)
  moreover have "writes (respMessage (abort_reply w)) =
      (if writable (respMessage w)
       then writes (respMessage w) @ [abort_body (reason (ctrl w))]
       else writes (respMessage w))"
    by (simp add: abort_reply_def Let_def endMessage_def writeChunk_def writeHead_def
        setHeader_def)
  moreover have "ended (respMessage (abort_reply w))"
    by (simp add: abort_reply_def Let_def endMessage_def)
  ultimately show ?thesis
    using send_heads_cases by blast
qed

text \<open>
  The socket closed before the send: 408 and the reason as JSON.
\<close>

theorem aborted_send_replies_408_witness:
  "aborted (ctrl (controller_abort (Str ''Socket closed'') demo_world))
   \<and> \<not> headersSent (respMessage (controller_abort (Str ''Socket closed'') demo_world))
   \<and> heads (respMessage (snd (send demo_env [] (ResponseV demo_response)
         (controller_abort (Str ''Socket closed'') demo_world)))) = [(408, None)]
   \<and> writes (respMessage (snd (send demo_env [] (ResponseV demo_response)
         (controller_abort (Str ''Socket closed'') demo_world)))) =
       [JSON_stringify (HTTPError ''Socket closed'' 408
          (Some (ErrorV (Error ''Socket closed''))))]"
proof -
  have a: "aborted (ctrl (controller_abort (Str ''Socket closed'') demo_world))"
    by (simp add: demo_defs model_defs)
  have b: "\<not> headersSent (respMessage (controller_abort (Str ''Socket closed'') demo_world))"
    by (simp add: demo_defs model_defs)
  show ?thesis
    using a b
      aborted_send_replies_408 [OF a b, of demo_env "[]" "ResponseV demo_response"]
    by (simp add: demo_defs model_defs)
qed

text \<open>
  The claim as stated fails for the external token. The signal passed to \<^verbatim>\<open>serve\<close>
  aborts while the handler runs; the handler returns a 200 response. When the send
  starts, the request's signal is aborted and no head has been written, and the send
  writes 200 and the body.
\<close>

theorem external_abort_counterexample:
  "aborted (request_signal (pipeline demo_env
       (demo_config [(''/api/items'', FunctionT ''shutdown'' shutdown_handler)] [] [])
       demo_request (new_world (Some pending_signal) fresh_transport)))
   \<and> heads (respMessage (pipeline demo_env
       (demo_config [(''/api/items'', FunctionT ''shutdown'' shutdown_handler)] [] [])
       demo_request (new_world (Some pending_signal) fresh_transport))) = []
   \<and> heads (respMessage (snd (handle_request demo_env
       (demo_config [(''/api/items'', FunctionT ''shutdown'' shutdown_handler)] [] [])
       demo_request (new_world (Some pending_signal) fresh_transport)))) = [(200, Some ''OK'')]
   \<and> writes (respMessage (snd (handle_request demo_env
       (demo_config [(''/api/items'', FunctionT ''shutdown'' shutdown_handler)] [] [])
       demo_request (new_world (Some pending_signal) fresh_transport)))) =
       [Data ''hello'', Data ''world'']"
  by (simp add: demo_defs model_defs)

subsection \<open>Postprocessors\<close>

lemma keep_transforms_no_null:
  "NullValue \<notin> set (map result_value rs) \<Longrightarrow>
   keep_transforms rs =
     Inr (concat (map (\<lambda>r. if isTransformStream (result_value r) = Inr True
                            then pipe_of (result_value r) else []) rs))"
proof (induction rs)
  case Nil
  then show ?case by simp
next
  case (Cons r rs)
  then show ?case
    by (cases "result_value r") simp_all
qed

lemma reduce_pipes_chain:
  "\<not> locked s \<Longrightarrow> reduce_pipes ts (Some s) = Inr (Some (foldl PipedThrough s ts))"
  by (induction ts arbitrary: s) simp_all

lemma run_postprocessors_results:
  "fst (run_postprocessors pps i resp w) = map (\<lambda>pp. snd (pp resp)) pps"
proof (induction pps arbitrary: i w)
  case Nil
  then show ?case by simp
next
  case (Cons pp pps)
  obtain effs res where p: "pp resp = (effs, res)"
    by (cases "pp resp")
  obtain rs w' where r: "run_postprocessors pps (Suc i) resp
      (perform_all effs (record_event (PostprocessorCalled i) w)) = (rs, w')"
    by (cases "run_postprocessors pps (Suc i) resp
      (perform_all effs (record_event (PostprocessorCalled i) w))")
  from Cons.IH [of "Suc i" "perform_all effs (record_event (PostprocessorCalled i) w)"] r
  have "rs = map (\<lambda>pp. snd (pp resp)) pps"
    by simp
  with p r show ?case
    by simp
qed

text \<open>
  When no postprocessor settles with \<^verbatim>\<open>null\<close> and the response has an unlocked
  body, the body that is sent is the original body piped through the kept transforms, in
  the order of the postprocessors; results that are no transform streams and failures
  are left out.
\<close>

lemma postprocessors_chained:
  assumes "\<not> isImmutableResponse resp" and "body resp = Some s" and "\<not> locked s"
    and "NullValue \<notin> set (map (\<lambda>pp. result_value (snd (pp resp))) pps)"
  shows "fst (select_body pps resp w) =
           Inr (Some (foldl PipedThrough s
             (concat (map (\<lambda>pp. if isTransformStream (result_value (snd (pp resp))) = Inr True
                                  then pipe_of (result_value (snd (pp resp))) else []) pps))))"
proof -
  obtain rs w' where r: "run_postprocessors pps 0 resp w = (rs, w')"
    by (cases "run_postprocessors pps 0 resp w")
  have rs: "rs = map (\<lambda>pp. snd (pp resp)) pps"
    using run_postprocessors_results [of pps 0 resp w] r by simp
  have "NullValue \<notin> set (map result_value rs)"
    using assms(4) by (simp add: rs comp_def)
  then have "keep_transforms rs =
      Inr (concat (map (\<lambda>r. if isTransformStream (result_value r) = Inr True
                             then pipe_of (result_value r) else []) rs))"
    by (rule keep_transforms_no_null)
  then show ?thesis
    using assms(1-3) r
    by (simp add: select_body_def reduce_pipes_chain rs comp_def)
qed

text \<open>
  Two transforms around a failing postprocessor: the marks show the order.
\<close>

lemma two_transforms_in_order:
  "fst (select_body [shout_postprocessor, failing_postprocessor, wrap_postprocessor]
         demo_response demo_world) =
     Inr (Some (PipedThrough (PipedThrough (BodyStream False [''hello'', ''world'']) shout) wrap))
   \<and> writes (respMessage (snd (send demo_env
         [shout_postprocessor, failing_postprocessor, wrap_postprocessor]
         (ResponseV demo_response) demo_world))) = [Data ''<hello!>'', Data ''<world!>'']"
  by (simp add: demo_defs model_defs)

text \<open>
  Claim C8 fails on a postprocessor that settles with \<^verbatim>\<open>null\<close>:
  \<^verbatim>\<open>_isTransformStream(null)\<close> throws, so \<^verbatim>\<open>_send\<close> throws before a header is
  written; the \<^verbatim>\<open>catch\<close> handler's own \<^verbatim>\<open>_send\<close> runs the postprocessors again and
  throws again. Nothing is written to the response, which is never ended, and the
  request callback's promise rejects.
\<close>

theorem null_postprocessor_blocks_send:
  "fst (handle_request demo_env
      (demo_config [(''/api/items'', FunctionT ''hello'' hello_handler)] [] [null_postprocessor])
      demo_request demo_world) =
    Some (ErrorV (TypeError ''Cannot read properties of null (reading readable)''))
  \<and> respMessage (snd (handle_request demo_env
      (demo_config [(''/api/items'', FunctionT ''hello'' hello_handler)] [] [null_postprocessor])
      demo_request demo_world)) = fresh_transport"
  by (simp add: demo_defs model_defs)

subsection \<open>Aborting mid-stream\<close>

text \<open>Without an abort or a failure, the events of a body are the run \<^verbatim>\<open>send\<close> makes.\<close>

lemma callbacks_after_close:
  "body_status s \<noteq> Readable \<Longrightarrow> foldl (\<lambda>s' r. body_cancel r s') s rs = s"
  by (induction rs) (simp_all add: body_cancel_def)

lemma read_events_natural:
  "\<not> aborted (token s) \<Longrightarrow>
   sink (read_events rel (map ChunkRead cs @ [EndOfStream]) s) =
     endMessage (foldl (\<lambda>t' c. writeChunk (Data c) t') (sink s) cs)"
proof (induction cs arbitrary: s)
  case Nil
  have f: "foldl (\<lambda>s' r. body_cancel r s') (s\<lparr>body_status := Closed, read_awaited := False\<rparr>)
      (closed_then s) = s\<lparr>body_status := Closed, read_awaited := False\<rparr>"
    by (rule callbacks_after_close) simp
  show ?case
    by (simp add: Let_def f releaseLock_def) (simp add: body_cancel_def)
next
  case (Cons c cs)
  then show ?case
    by (simp add: Let_def)
qed

lemma stream_body_natural:
  assumes "\<not> aborted (ctrl w)"
  shows "sink (stream_body env (map ChunkRead cs @ [EndOfStream]) w) =
           respMessage (read_loop cs w)"
proof -
  have "\<not> aborted (token (start_streaming w))"
    using assms by (simp add: start_streaming_def)
  from read_events_natural [OF this] assms show ?thesis
    by (simp add: stream_body_def read_loop_pending on_transport_def start_streaming_def)
qed

text \<open>
  Under the Streams standard, an abort while a read is awaited, after any number of
  chunks: no further chunk is written and the lock is released, but the callback that
  would cancel the body with the abort reason is dropped when \<^verbatim>\<open>releaseLock\<close>
  rejects \<^verbatim>\<open>reader.closed\<close>; the pending read rejects with the error of the release,
  and the \<^verbatim>\<open>catch\<close> destroys the response with that error and cancels the body with
  it.
\<close>

lemma abort_mid_stream:
  assumes "\<not> aborted (token s)" and "body_locked s" and "body_status s = Readable"
    and "read_awaited s"
  shows "read_events (ReleaseRejects e) (map ChunkRead cs @ AbortFires r # es) s =
           s\<lparr>token := aborted_signal (abort_reason r), body_locked := False,
             body_status := Cancelled e, read_awaited := False, closed_then := [],
             sink := (foldl (\<lambda>t' c. writeChunk (Data c) t') (sink s) cs)\<lparr>writable := False\<rparr>,
             destroyed := Some e\<rparr>"
  using assms
proof (induction cs arbitrary: s)
  case Nil
  then show ?case
    by (simp add: stream_defs)
next
  case (Cons c cs)
  then show ?case
    by (simp add: Let_def)
qed

text \<open>
  Claim C9 holds in its first two parts and fails in the third. A body of two chunks is
  being sent; the socket closes while the second read is awaited. The second chunk is
  not written and the reader is released, but the body is cancelled with the
  \<^verbatim>\<open>TypeError\<close> of the release, not with the abort reason \<^verbatim>\<open>'Socket closed'\<close>, and
  the response is destroyed with that \<^verbatim>\<open>TypeError\<close>.
\<close>

theorem abort_cancels_with_release_error:
  "releaseLock_pending demo_env = ReleaseRejects (ErrorV (TypeError ''Releasing reader''))
   \<and> token (stream_body demo_env
        [ChunkRead ''hello'', AbortFires (Str ''Socket closed''), ChunkRead ''world'', EndOfStream]
        (on_transport (write_headers demo_response) demo_world)) =
       aborted_signal (Str ''Socket closed'')
   \<and> writes (sink (stream_body demo_env
        [ChunkRead ''hello'', AbortFires (Str ''Socket closed''), ChunkRead ''world'', EndOfStream]
        (on_transport (write_headers demo_response) demo_world))) = [Data ''hello'']
   \<and> \<not> body_locked (stream_body demo_env
        [ChunkRead ''hello'', AbortFires (Str ''Socket closed''), ChunkRead ''world'', EndOfStream]
        (on_transport (write_headers demo_response) demo_world))
   \<and> body_status (stream_body demo_env
        [ChunkRead ''hello'', AbortFires (Str ''Socket closed''), ChunkRead ''world'', EndOfStream]
        (on_transport (write_headers demo_response) demo_world)) =
       Cancelled (ErrorV (TypeError ''Releasing reader''))
   \<and> body_status (stream_body demo_env
        [ChunkRead ''hello'', AbortFires (Str ''Socket closed''), ChunkRead ''world'', EndOfStream]
        (on_transport (write_headers demo_response) demo_world)) \<noteq>
       Cancelled (Str ''Socket closed'')
   \<and> destroyed (stream_body demo_env
        [ChunkRead ''hello'', AbortFires (Str ''Socket closed''), ChunkRead ''world'', EndOfStream]
        (on_transport (write_headers demo_response) demo_world)) =
       Some (ErrorV (TypeError ''Releasing reader''))"
  by (simp add: stream_defs demo_defs model_defs)

text \<open>
  Where \<^verbatim>\<open>releaseLock\<close> throws while a read is pending, the same run goes on after the
  abort: the exception leaves the listener, the next chunk is written, the loop ends
  without ending the response, and the body stays locked and is not cancelled.
\<close>

lemma abort_with_throwing_release:
  "writes (sink (read_events (ReleaseThrows (ErrorV (TypeError ''Pending reads'')))
        [ChunkRead ''hello'', AbortFires (Str ''Socket closed''), ChunkRead ''world'', EndOfStream]
        (start_streaming demo_world))) = [Data ''hello'', Data ''world'']
   \<and> body_locked (read_events (ReleaseThrows (ErrorV (TypeError ''Pending reads'')))
        [ChunkRead ''hello'', AbortFires (Str ''Socket closed''), ChunkRead ''world'', EndOfStream]
        (start_streaming demo_world))
   \<and> body_status (read_events (ReleaseThrows (ErrorV (TypeError ''Pending reads'')))
        [ChunkRead ''hello'', AbortFires (Str ''Socket closed''), ChunkRead ''world'', EndOfStream]
        (start_streaming demo_world)) = Readable
   \<and> \<not> ended (sink (read_events (ReleaseThrows (ErrorV (TypeError ''Pending reads'')))
        [ChunkRead ''hello'', AbortFires (Str ''Socket closed''), ChunkRead ''world'', EndOfStream]
        (start_streaming demo_world)))
   \<and> unhandled (read_events (ReleaseThrows (ErrorV (TypeError ''Pending reads'')))
        [ChunkRead ''hello'', AbortFires (Str ''Socket closed''), ChunkRead ''world'', EndOfStream]
        (start_streaming demo_world)) = [ErrorV (TypeError ''Pending reads'')]"
  by (simp add: stream_defs demo_defs model_defs)

section \<open>The request pipeline\<close>

subsection \<open>Preprocessor failures\<close>

lemma fanout_no_throw:
  "\<forall>r\<in>set rs. \<forall>e. snd r \<noteq> Throws e \<Longrightarrow> fst (fanout rs w) = Inr (rejections rs)"
  by (induction rs w rule: fanout.induct) (auto split: prod.splits sum.splits)

text \<open>
  Claim C3, as amended. Let N preprocessors run on a new request, none of them throwing
  before it returns, and let K \<ge> 1 of their promises reject. If, when all have
  settled, the request's signal is not aborted and the request has not been settled
  through the context's \<^verbatim>\<open>resolve\<close> or \<^verbatim>\<open>reject\<close>, the pipeline rejects with
  that single reason when K = 1, and with an \<^verbatim>\<open>AggregateError\<close> of the K reasons, in
  the order of the preprocessors, when K > 1.
\<close>

theorem preprocessor_failures_reject:
  assumes "runs = map (\<lambda>plugin. plugin req) (requestPreprocessors cfg)"
    and "\<forall>r\<in>set runs. \<forall>e. snd r \<noteq> Throws e"
    and "rejections runs \<noteq> []"
    and "\<not> aborted (request_signal (snd (fanout runs (new_world passed t))))"
    and "\<not> settled (snd (fanout runs (new_world passed t)))"
  shows "promise (pipeline env cfg req (new_world passed t)) =
           Some (Rejected (if length (rejections runs) = 1 then hd (rejections runs)
                           else ErrorV (AggregateError (rejections runs))))"
proof -
  define w where "w = snd (fanout runs (new_world passed t))"
  have f: "fanout runs (new_world passed t) = (Inr (rejections runs), w)"
    using fanout_no_throw [OF assms(2), of "new_world passed t"]
    by (simp add: w_def prod_eq_iff)
  have "consistent w"
    unfolding w_def by (rule consistent_fanout) (rule consistent_new_world)
  with assms(5) have p: "promise w = None"
    by (simp add: consistent_def w_def)
  have s: "\<not> settled w"
    using assms(5) by (simp add: w_def)
  have a: "\<not> aborted (request_signal w)"
    using assms(4) by (simp add: w_def)
  have "pipeline env cfg req (new_world passed t) =
      (if length (rejections runs) = 1 then reject (hd (rejections runs)) w
       else reject (ErrorV (AggregateError (rejections runs))) w)"
    using f a assms(3) by (simp add: pipeline_def Let_def assms(1) [symmetric])
  then show ?thesis
    by (simp add: reject_pending [OF s p])
qed

text \<open>
  Two of three preprocessors fail: an aggregate of both; one of two fails: that one.
\<close>

theorem preprocessor_failures_reject_witness:
  "map snd (map (\<lambda>plugin. plugin demo_request)
       [denying_preprocessor, passing_preprocessor, limiting_preprocessor]) =
     [Rejects (ErrorV (Error ''denied'')), Returns Undefined,
      Rejects (ErrorV (HTTPError ''Too many requests'' 429 None))]
   \<and> promise (pipeline demo_env
       (demo_config [] [denying_preprocessor, passing_preprocessor, limiting_preprocessor] [])
       demo_request demo_world) =
     Some (Rejected (ErrorV (AggregateError
       [ErrorV (Error ''denied''), ErrorV (HTTPError ''Too many requests'' 429 None)])))
   \<and> promise (pipeline demo_env (demo_config [] [passing_preprocessor, limiting_preprocessor] [])
       demo_request demo_world) =
     Some (Rejected (ErrorV (HTTPError ''Too many requests'' 429 None)))"
proof -
  let ?cfg = "demo_config [] [denying_preprocessor, passing_preprocessor, limiting_preprocessor] []"
  let ?runs = "map (\<lambda>plugin. plugin demo_request) (requestPreprocessors ?cfg)"
  have a: "?runs = map (\<lambda>plugin. plugin demo_request) (requestPreprocessors ?cfg)"
    by (rule refl)
  have b: "\<forall>r\<in>set ?runs. \<forall>e. snd r \<noteq> Throws e"
    by (simp add: demo_defs)
  have c: "rejections ?runs \<noteq> []"
    by (simp add: demo_defs)
  have d: "\<not> aborted (request_signal (snd (fanout ?runs (new_world None fresh_transport))))"
    by (simp add: demo_defs model_defs)
  have e: "\<not> settled (snd (fanout ?runs (new_world None fresh_transport)))"
    by (simp add: demo_defs model_defs)
  show ?thesis
    using preprocessor_failures_reject [OF a b c d e, of demo_env]
    by (simp add: demo_defs model_defs)
qed

text \<open>
  The claim as stated fails when a preprocessor settles the request before it fails:
  \<^verbatim>\<open>reject(hookErrs[0])\<close> is then a no-op and the pipeline's outcome is the response
  the preprocessor resolved with.
\<close>

theorem settled_before_failure_counterexample:
  "map snd (map (\<lambda>plugin. plugin demo_request) [resolving_preprocessor]) =
     [Rejects (ErrorV (Error ''denied''))]
   \<and> \<not> aborted (request_signal (pipeline demo_env (demo_config [] [resolving_preprocessor] [])
         demo_request demo_world))
   \<and> promise (pipeline demo_env (demo_config [] [resolving_preprocessor] [])
         demo_request demo_world) = Some (Fulfilled (ResponseV demo_response))"
  by (simp add: demo_defs model_defs)

subsection \<open>Route selection\<close>

lemma pipeline_after_hooks:
  assumes "fanout (map (\<lambda>plugin. plugin req) (requestPreprocessors cfg)) w0 = (Inr [], w)"
    and "\<not> aborted (request_signal w)" and "\<not> aborted (ctrl w)" and "\<not> settled w"
  shows "pipeline env cfg req w0 =
           (case find_pattern env (ROUTES cfg) (url req) of
              Some p \<Rightarrow> route_branch env (ROUTES_get (ROUTES cfg) p) req w
            | None \<Rightarrow>
                if existsSync env (getFileURL env (url req) (staticRoot cfg))
                then static_branch env (getFileURL env (url req) (staticRoot cfg)) req
                       (record_event
                          (ExistsSync (href (getFileURL env (url req) (staticRoot cfg)))) w)
                else reject (not_found req)
                       (record_event
                          (ExistsSync (href (getFileURL env (url req) (staticRoot cfg)))) w))"
  using assms by (simp add: pipeline_def Let_def split: option.splits)

lemma keys_make_ROUTES:
  "map fst (make_ROUTES env base routes) =
     map (\<lambda>i. URLPattern i (fst (routes ! i)) base) [0..<length routes]"
  by (rule nth_equalityI) (simp_all add: make_ROUTES_def nth_enumerate_eq)

lemma distinct_keys_make_ROUTES: "distinct (map fst (make_ROUTES env base routes))"
  by (simp add: keys_make_ROUTES distinct_map inj_on_def)

lemma nth_make_ROUTES:
  "i < length routes \<Longrightarrow>
   make_ROUTES env base routes ! i =
     (URLPattern i (fst (routes ! i)) base, resolveModulePath env (snd (routes ! i)))"
  by (simp add: make_ROUTES_def nth_enumerate_eq)

lemma ROUTES_get_make_ROUTES:
  assumes "i < length routes"
  shows "ROUTES_get (make_ROUTES env base routes) (URLPattern i (fst (routes ! i)) base) =
           resolveModulePath env (snd (routes ! i))"
proof -
  have "make_ROUTES env base routes ! i \<in> set (make_ROUTES env base routes)"
    using assms by (simp add: make_ROUTES_def)
  then have "(URLPattern i (fst (routes ! i)) base, resolveModulePath env (snd (routes ! i)))
      \<in> set (make_ROUTES env base routes)"
    using assms by (simp add: nth_make_ROUTES)
  then have "map_of (make_ROUTES env base routes) (URLPattern i (fst (routes ! i)) base) =
      Some (resolveModulePath env (snd (routes ! i)))"
    using distinct_keys_make_ROUTES by (simp add: map_of_eq_Some_iff)
  then show ?thesis
    by (simp add: ROUTES_get_def)
qed

text \<open>
  Claim C4. Let the route table be built from the entries \<^verbatim>\<open>routes\<close> (in the order
  of \<^verbatim>\<open>Object.entries\<close>, which is the order of the \<^verbatim>\<open>Map\<close>), and let the
  preprocessors pass without the request being aborted or settled. Then either some
  entry's pattern matches the request's URL, and the pattern found is that of the first
  such entry (no earlier entry matches, later ones may) and the pipeline handles the
  request with that entry's target; or no pattern matches, nothing is found, and the
  pipeline goes to the static-file lookup (\<^verbatim>\<open>existsSync\<close>, then the file or the 404).
\<close>

theorem first_matching_route:
  assumes "ROUTES cfg = make_ROUTES env base routes"
    and "fanout (map (\<lambda>plugin. plugin req) (requestPreprocessors cfg)) w0 = (Inr [], w)"
    and "\<not> aborted (request_signal w)" and "\<not> aborted (ctrl w)" and "\<not> settled w"
  shows "(\<exists>i<length routes.
            URLPattern_test env (URLPattern i (fst (routes ! i)) base) (url req)
          \<and> (\<forall>j<i. \<not> URLPattern_test env (URLPattern j (fst (routes ! j)) base) (url req))
          \<and> find_pattern env (ROUTES cfg) (url req) = Some (URLPattern i (fst (routes ! i)) base)
          \<and> pipeline env cfg req w0 =
              route_branch env (resolveModulePath env (snd (routes ! i))) req w)
       \<or> ((\<forall>i<length routes.
              \<not> URLPattern_test env (URLPattern i (fst (routes ! i)) base) (url req))
          \<and> find_pattern env (ROUTES cfg) (url req) = None
          \<and> pipeline env cfg req w0 =
              (if existsSync env (getFileURL env (url req) (staticRoot cfg))
               then static_branch env (getFileURL env (url req) (staticRoot cfg)) req
                      (record_event
                         (ExistsSync (href (getFileURL env (url req) (staticRoot cfg)))) w)
               else reject (not_found req)
                      (record_event
                         (ExistsSync (href (getFileURL env (url req) (staticRoot cfg)))) w)))"
proof (cases "find_pattern env (ROUTES cfg) (url req)")
  case None
  let ?keys = "map (\<lambda>i. URLPattern i (fst (routes ! i)) base) [0..<length routes]"
  have "find (\<lambda>pattern. URLPattern_test env pattern (url req)) ?keys = None"
    using None by (simp add: find_pattern_def assms(1) keys_make_ROUTES)
  then have "\<forall>p\<in>set ?keys. \<not> URLPattern_test env p (url req)"
    by (simp add: find_None_iff)
  then have no: "\<forall>i<length routes.
      \<not> URLPattern_test env (URLPattern i (fst (routes ! i)) base) (url req)"
    by simp
  have "pipeline env cfg req w0 =
      (if existsSync env (getFileURL env (url req) (staticRoot cfg))
       then static_branch env (getFileURL env (url req) (staticRoot cfg)) req
              (record_event (ExistsSync (href (getFileURL env (url req) (staticRoot cfg)))) w)
       else reject (not_found req)
              (record_event (ExistsSync (href (getFileURL env (url req) (staticRoot cfg)))) w))"
    using pipeline_after_hooks [OF assms(2-5), of env] None by simp
  with no None show ?thesis
    by blast
next
  case (Some p)
  let ?keys = "map (\<lambda>i. URLPattern i (fst (routes ! i)) base) [0..<length routes]"
  have "find (\<lambda>pattern. URLPattern_test env pattern (url req)) ?keys = Some p"
    using Some by (simp add: find_pattern_def assms(1) keys_make_ROUTES)
  then obtain i where i: "i < length ?keys"
      and t: "URLPattern_test env (?keys ! i) (url req)"
      and p: "p = ?keys ! i"
      and first: "\<forall>j<i. \<not> URLPattern_test env (?keys ! j) (url req)"
    by (auto simp: find_Some_iff)
  have il: "i < length routes"
    using i by simp
  have pi: "p = URLPattern i (fst (routes ! i)) base"
    using p il by simp
  have ti: "URLPattern_test env (URLPattern i (fst (routes ! i)) base) (url req)"
    using t il by simp
  have fi: "\<forall>j<i. \<not> URLPattern_test env (URLPattern j (fst (routes ! j)) base) (url req)"
    using first il by simp
  have "pipeline env cfg req w0 = route_branch env (ROUTES_get (ROUTES cfg) p) req w"
    using pipeline_after_hooks [OF assms(2-5), of env] Some by simp
  then have "pipeline env cfg req w0 =
      route_branch env (resolveModulePath env (snd (routes ! i))) req w"
    by (simp add: assms(1) pi ROUTES_get_make_ROUTES [OF il])
  with il ti fi Some pi show ?thesis
    by blast
qed

text \<open>
  Three routes, of which the second and the third match: the second one's handler
  answers. Without routes the static root is probed.
\<close>

theorem first_matching_route_witness:
  "ROUTES (demo_config demo_routes [] []) = make_ROUTES demo_env demo_base demo_routes
   \<and> fanout (map (\<lambda>plugin. plugin demo_request)
        (requestPreprocessors (demo_config demo_routes [] []))) demo_world = (Inr [], demo_world)
   \<and> \<not> aborted (request_signal demo_world) \<and> \<not> aborted (ctrl demo_world)
   \<and> \<not> settled demo_world
   \<and> \<not> demo_test (URLPattern 0 ''/admin/*'' demo_base) (url demo_request)
   \<and> demo_test (URLPattern 1 ''/api/*'' demo_base) (url demo_request)
   \<and> demo_test (URLPattern 2 ''/api/items'' demo_base) (url demo_request)
   \<and> find_pattern demo_env (ROUTES (demo_config demo_routes [] [])) (url demo_request) =
       Some (URLPattern 1 ''/api/*'' demo_base)
   \<and> promise (pipeline demo_env (demo_config demo_routes [] []) demo_request demo_world) =
       Some (Fulfilled (ResponseV demo_response))
   \<and> trace (pipeline demo_env (demo_config [] [] []) demo_request demo_world) =
       [ExistsSync ''file:///srv/api/items'']"
proof -
  have a: "ROUTES (demo_config demo_routes [] []) = make_ROUTES demo_env demo_base demo_routes"
    by (simp add: demo_config_def)
  have b: "fanout (map (\<lambda>plugin. plugin demo_request)
      (requestPreprocessors (demo_config demo_routes [] []))) demo_world = (Inr [], demo_world)"
    by (simp add: demo_config_def)
  have c: "\<not> aborted (request_signal demo_world)"
    by (simp add: demo_defs model_defs)
  have d: "\<not> aborted (ctrl demo_world)"
    by (simp add: demo_defs model_defs)
  have e: "\<not> settled demo_world"
    by (simp add: demo_defs model_defs)
  show ?thesis
    using a b c d e first_matching_route [OF a b c d e]
    by (simp add: demo_defs model_defs)
qed

subsection \<open>A target without a handler\<close>

text \<open>
  When the preprocessors pass without the request being aborted or settled, a pattern
  matches, its target is a module specifier and the loaded module has no callable
  default export, the pipeline rejects with the \<^verbatim>\<open>TypeError\<close> of the call without
  \<^verbatim>\<open>new\<close>, which is sent as the \<^verbatim>\<open>HTTPError\<close> of status 500 for an unknown error. The
  only collaborator called is the \<^verbatim>\<open>import\<close>: \<^verbatim>\<open>existsSync\<close> is not evaluated,
  whatever it would answer.
\<close>

lemma invalid_handler_no_static_fallback:
  assumes "fanout (map (\<lambda>plugin. plugin req) (requestPreprocessors cfg))
             (new_world passed t) = (Inr [], w)"
    and "\<not> aborted (request_signal w)" and "\<not> aborted (ctrl w)" and "\<not> settled w"
    and "find_pattern env (ROUTES cfg) (url req) = Some p"
    and "ROUTES_get (ROUTES cfg) p = SpecifierT s"
    and "import_module env s = ModuleNS DefaultOther"
  shows "promise (pipeline env cfg req (new_world passed t)) =
           Some (Rejected
             (ErrorV (TypeError ''Class constructor HTTPError cannot be invoked without new'')))
       \<and> error_sent (ErrorV (TypeError ''Class constructor HTTPError cannot be invoked without new'')) =
           HTTPError ''An unknown error occured'' 500
             (Some (ErrorV (TypeError ''Class constructor HTTPError cannot be invoked without new'')))
       \<and> trace (pipeline env cfg req (new_world passed t)) = [Import s]"
proof -
  have "consistent (snd (fanout (map (\<lambda>plugin. plugin req) (requestPreprocessors cfg))
      (new_world passed t)))"
    by (rule consistent_fanout) (rule consistent_new_world)
  then have c: "consistent w"
    by (simp add: assms(1))
  with assms(4) have p: "promise w = None"
    by (simp add: consistent_def)
  have "trace (snd (fanout (map (\<lambda>plugin. plugin req) (requestPreprocessors cfg))
      (new_world passed t))) = trace (new_world passed t)"
    by (rule fanout_trace)
  then have tr: "trace w = []"
    unfolding assms(1) snd_conv by (simp add: new_world_def)
  have pl: "pipeline env cfg req (new_world passed t) =
      reject (missing_default_export (SpecifierT s)) (record_event (Import s) w)"
    using pipeline_after_hooks [OF assms(1-4), of env] assms(5-7) by simp
  have "promise (reject (missing_default_export (SpecifierT s))
      (record_event (Import s) w)) = Some (Rejected (missing_default_export (SpecifierT s)))"
    using assms(4) p by (simp add: reject_pending record_event_def)
  moreover have "trace (reject (missing_default_export (SpecifierT s))
      (record_event (Import s) w)) = [Import s]"
    using tr by (simp add: reject_def rejectRequest_def record_event_def)
  ultimately show ?thesis
    by (simp add: pl missing_default_export_def error_sent_def)
qed

text \<open>
  Claim C6 holds in its second half and fails in its first. The route
  \<^verbatim>\<open>/api/items\<close> is registered with the module \<^verbatim>\<open>./broken.js\<close>, which has no
  default export, and a static file exists for the path. The static file is not looked
  for (the trace holds the \<^verbatim>\<open>import\<close> alone). But the pipeline does not reject with
  the structured routing error of status 500 whose cause names the module, which line
  265 was written to build: the call without \<^verbatim>\<open>new\<close> throws, the pipeline rejects
  with that \<^verbatim>\<open>TypeError\<close>, and what goes out is the 500 for an unknown error.
\<close>

theorem missing_new_rejects_with_TypeError:
  "import_module demo_env ''./broken.js'' = ModuleNS DefaultOther
   \<and> existsSync demo_env (getFileURL demo_env (url demo_request) ''/srv'')
   \<and> promise (pipeline demo_env (demo_config [(''/api/items'', SpecifierT ''./broken.js'')] [] [])
       demo_request demo_world) =
       Some (Rejected
         (ErrorV (TypeError ''Class constructor HTTPError cannot be invoked without new'')))
   \<and> promise (pipeline demo_env (demo_config [(''/api/items'', SpecifierT ''./broken.js'')] [] [])
       demo_request demo_world) \<noteq>
       Some (Rejected (intended_routing_error (SpecifierT ''./broken.js'')))
   \<and> trace (pipeline demo_env (demo_config [(''/api/items'', SpecifierT ''./broken.js'')] [] [])
       demo_request demo_world) = [Import ''./broken.js'']
   \<and> heads (respMessage (snd (handle_request demo_env
       (demo_config [(''/api/items'', SpecifierT ''./broken.js'')] [] [])
       demo_request demo_world))) = [(500, Some [])]
   \<and> writes (respMessage (snd (handle_request demo_env
       (demo_config [(''/api/items'', SpecifierT ''./broken.js'')] [] [])
       demo_request demo_world))) = [Data ''An unknown error occured'']"
  by (simp add: demo_defs model_defs)

subsection \<open>A handler that returns a plain object\<close>

text \<open>What \<^verbatim>\<open>new Response\<close> accepts of a plain object.\<close>

lemma normalize_accepts:
  assumes "st = (case o_status ob of None \<Rightarrow> 200 | Some n \<Rightarrow> n mod 65536)"
    and "200 \<le> st" and "st \<le> 599"
    and "valid_reason_phrase (case o_statusText ob of None \<Rightarrow> [] | Some txt \<Rightarrow> txt)"
    and "Response_headers env (o_body ob) (case o_headers ob of None \<Rightarrow> [] | Some hs \<Rightarrow> hs) =
           Inr hs'"
    and "o_body ob = None \<or> (st \<noteq> 204 \<and> st \<noteq> 205 \<and> st \<noteq> 304)"
  shows "normalize env (ObjectV ob) =
           Inr \<lparr>status = st,
                statusText = (case o_statusText ob of None \<Rightarrow> [] | Some txt \<Rightarrow> txt),
                headers = hs',
                body = map_option (\<lambda>c. BodyStream False [c]) (o_body ob)\<rparr>"
  using assms
  by (auto simp: normalize_def new_Response_def Let_def split: option.splits)

text \<open>A status of 65736 is read as 200; one of 700 is refused.\<close>

lemma status_is_an_unsigned_short:
  "map_sum (\<lambda>e. e) status (normalize demo_env (ObjectV (no_fields\<lparr>o_status := Some 65736\<rparr>))) =
     Inr 200
   \<and> normalize demo_env (ObjectV (no_fields\<lparr>o_status := Some 700\<rparr>)) =
     Inl (ErrorV (RangeError ''The status provided is outside the range [200, 599].''))"
  by (simp add: demo_defs model_defs)

text \<open>
  Claim C1, as amended. A route handler's plain object is not normalized by the
  pipeline: \<^verbatim>\<open>classify\<close> (lines 272--280) rejects with a \<^verbatim>\<open>TypeError\<close>. The
  normalization is \<^verbatim>\<open>_send\<close>'s: a plain object that the request was resolved with
  (through the context's \<^verbatim>\<open>resolve\<close>) and that \<^verbatim>\<open>new Response\<close> accepts is sent, when
  the signal is not aborted, as the standard response whose body is the object's body
  and whose status is the object's status as \<^verbatim>\<open>new Response\<close> reads it: the number
  modulo 65536, which is the number itself for every status from 200 to 599, and 200 if
  the object has none.
\<close>

theorem plain_object_outcome:
  assumes "\<not> settled w" and "promise w = None"
    and "\<not> aborted (ctrl w')" and "normalize env (ObjectV ob) = Inr r"
  shows "promise (classify m (ObjectV ob) w) = Some (Rejected (no_response m))
       \<and> promise (resolve (ObjectV ob) w) = Some (Fulfilled (ObjectV ob))
       \<and> send env pps (ObjectV ob) w' = send env pps (ResponseV r) w'
       \<and> status r = (case o_status ob of None \<Rightarrow> 200 | Some st \<Rightarrow> st mod 65536)
       \<and> 200 \<le> status r \<and> status r \<le> 599
       \<and> body r = map_option (\<lambda>s. BodyStream False [s]) (o_body ob)"
proof -
  have "promise (classify m (ObjectV ob) w) = Some (Rejected (no_response m))"
    using assms(1,2) by (simp add: classify_def reject_pending)
  moreover have "promise (resolve (ObjectV ob) w) = Some (Fulfilled (ObjectV ob))"
    using assms(1,2) by (rule resolve_pending)
  moreover have "send env pps (ObjectV ob) w' = send env pps (ResponseV r) w'"
    using assms(3,4) by simp
  moreover have "status r = (case o_status ob of None \<Rightarrow> 200 | Some st \<Rightarrow> st mod 65536)
      \<and> 200 \<le> status r \<and> status r \<le> 599
      \<and> body r = map_option (\<lambda>s. BodyStream False [s]) (o_body ob)"
    using assms(4)
    by (auto simp: normalize_def new_Response_def Let_def
        split: if_splits sum.splits option.splits)
  ultimately show ?thesis
    by simp
qed

text \<open>
  The object \<^verbatim>\<open>{status: 201, body: "ok"}\<close> handed to the sender: 201 and the body.
\<close>

theorem plain_object_outcome_witness:
  "\<not> settled demo_world \<and> promise demo_world = None \<and> \<not> aborted (ctrl demo_world)
   \<and> normalize demo_env (ObjectV demo_object) =
       Inr \<lparr>status = 201, statusText = [],
            headers = [(''content-type'', ''text/plain;charset=UTF-8'')],
            body = Some (BodyStream False [''ok''])\<rparr>
   \<and> promise (resolve (ObjectV demo_object) demo_world) = Some (Fulfilled (ObjectV demo_object))
   \<and> heads (respMessage (snd (send demo_env [] (ObjectV demo_object) demo_world))) =
       [(201, Some [])]
   \<and> writes (respMessage (snd (send demo_env [] (ObjectV demo_object) demo_world))) =
       [Data ''ok'']"
proof -
  have a: "\<not> settled demo_world"
    by (simp add: demo_defs model_defs)
  have b: "promise demo_world = None"
    by (simp add: demo_defs model_defs)
  have c: "\<not> aborted (ctrl demo_world)"
    by (simp add: demo_defs model_defs)
  have d: "normalize demo_env (ObjectV demo_object) =
      Inr \<lparr>status = 201, statusText = [],
           headers = [(''content-type'', ''text/plain;charset=UTF-8'')],
           body = Some (BodyStream False [''ok''])\<rparr>"
    by (simp add: demo_defs model_defs)
  show ?thesis
    using a b c d plain_object_outcome [OF a b c d, of "SpecifierT ''./created.js''" "[]"]
    by (simp add: demo_defs model_defs)
qed

text \<open>
  The claim as stated fails: the handler returns \<^verbatim>\<open>{status: 201, body: "ok"}\<close>,
  the pipeline rejects, and the response that goes out is the 500 of the error path.
\<close>

theorem returned_object_counterexample:
  "promise (pipeline demo_env
       (demo_config [(''/api/items'', FunctionT ''created'' created_handler)] [] [])
       demo_request demo_world) =
     Some (Rejected (ErrorV (TypeError ''created did not return a response.'')))
   \<and> heads (respMessage (snd (handle_request demo_env
       (demo_config [(''/api/items'', FunctionT ''created'' created_handler)] [] [])
       demo_request demo_world))) = [(500, Some [])]"
  by (simp add: demo_defs model_defs)

end
